theory Spec2Isabelle
  imports Main "HOL-Library.Word"
begin

unbundle bit_operations_syntax

section \<open>The allocator runtime, the operating system and the log, as seen from the code\<close>

text \<open>
  \<^verbatim>\<open>cache/jemalloc_nodump_allocator.cc\<close> is glue between three outside parties: the
  allocator runtime (\<^verbatim>\<open>mallctl\<close>, \<^verbatim>\<open>mallocx\<close>, \<^verbatim>\<open>dallocx\<close>, \<^verbatim>\<open>malloc_usable_size\<close> and the
  extent hooks it hands out), the operating system (\<^verbatim>\<open>madvise\<close>, \<^verbatim>\<open>stderr\<close>) and the
  diagnostic log. None of them is part of the file. The model records every call the code
  issues to them, in order, and takes their answers from an oracle that may depend on
  everything that was called before. Pointers to data (\<^verbatim>\<open>void*\<close>) are numbers, \<open>0\<close> being
  \<^verbatim>\<open>nullptr\<close>; \<^verbatim>\<open>size_t\<close> and \<^verbatim>\<open>unsigned\<close> values are naturals and \<^verbatim>\<open>int\<close> values are integers
  (the file does no arithmetic on them besides one bitwise or).
\<close>

type_synonym addr = nat

text \<open>
  A value of type \<^verbatim>\<open>extent_alloc_t*\<close>: the null pointer, a function of the runtime (known
  by its address only), or \<^verbatim>\<open>&JemallocNodumpAllocator::Alloc\<close>.
\<close>

datatype extent_alloc_ptr =
    alloc_nullptr
  | alloc_runtime nat
  | alloc_JemallocNodumpAllocator

text \<open>
  \<^verbatim>\<open>extent_hooks_t\<close> is declared in the runtime's header (jemalloc 5), not in the file: a
  table of nine function pointers. Only \<open>alloc\<close> is ever read or written by the code; the
  other eight are copied and are kept as opaque addresses.
\<close>

record extent_hooks_t =
  alloc :: extent_alloc_ptr
  dalloc :: nat
  destroy :: nat
  commit :: nat
  decommit :: nat
  purge_lazy :: nat
  purge_forced :: nat
  split :: nat
  merge :: nat

text \<open>
  The parameters of an extent allocation hook. \<^verbatim>\<open>bool* zero\<close> and \<^verbatim>\<open>bool* commit\<close> are
  in-out parameters: the record holds what they point to at the call, and the result holds
  what they point to at the return.
\<close>

record extent_alloc_args =
  extent :: addr
  new_addr :: addr
  alloc_size :: nat
  alignment :: nat
  zero_in :: bool
  commit_in :: bool
  arena_ind :: nat

record extent_alloc_result =
  result_ptr :: addr
  zero_out :: bool
  commit_out :: bool

text \<open>\<^verbatim>\<open>std::shared_ptr<Logger>\<close>: \<open>None\<close> is the empty pointer.\<close>

type_synonym logger = "nat option"

datatype call =
    mallctl_call string bool "extent_hooks_t option"
  | mallocx_call nat int
  | dallocx_call addr int
  | malloc_usable_size_call addr
  | extent_alloc_call nat extent_alloc_args
  | madvise_call addr nat int
  | fprintf_stderr string int
  | ROCKS_LOG_ERROR logger string int

text \<open>
  The two printing calls carry their format string and the \<^verbatim>\<open>int\<close> printed by its
  \<^verbatim>\<open>%d\<close>. In \<open>mallctl_call name oldp newp\<close>, \<open>oldp\<close> tells whether the call passed a buffer for the
  old value and \<open>newp\<close> is the hook table behind the new value's pointer, if one was passed.
  The reply to \<^verbatim>\<open>mallctl\<close> is its return code and what it stored in the buffer, read as an
  \<^verbatim>\<open>unsigned\<close> (\<open>old_unsigned\<close>) or as a pointer to a hook table (\<open>old_hooks\<close>, the table
  pointed to).
\<close>

record mallctl_reply =
  ret :: int
  old_unsigned :: nat
  old_hooks :: extent_hooks_t

record env =
  mallctl :: "call list \<Rightarrow> string \<Rightarrow> bool \<Rightarrow> extent_hooks_t option \<Rightarrow> mallctl_reply"
  mallocx :: "call list \<Rightarrow> nat \<Rightarrow> int \<Rightarrow> addr"
  malloc_usable_size :: "call list \<Rightarrow> addr \<Rightarrow> nat"
  extent_alloc :: "call list \<Rightarrow> nat \<Rightarrow> extent_alloc_args \<Rightarrow> extent_alloc_result"
  madvise :: "call list \<Rightarrow> addr \<Rightarrow> nat \<Rightarrow> int \<Rightarrow> int"

text \<open>
  What the headers and the build give the file: whether \<^verbatim>\<open>ROCKSDB_JEMALLOC_NODUMP_ALLOCATOR\<close>
  and \<^verbatim>\<open>NDEBUG\<close> are defined, the runtime's flag macros, the advice constant of the operating
  system, and the helper \<^verbatim>\<open>ToString\<close> of \<^verbatim>\<open>util/string_util.h\<close>. They are parameters of the
  model.
\<close>

record platform =
  ROCKSDB_JEMALLOC_NODUMP_ALLOCATOR :: bool
  NDEBUG :: bool
  MALLOCX_ARENA :: "nat \<Rightarrow> int"
  MALLOCX_TCACHE_NONE :: int
  MADV_DONTDUMP :: int
  ToString :: "int \<Rightarrow> string"

section \<open>The state of the process\<close>

text \<open>
  A member that the code names with a trailing underscore (\<^verbatim>\<open>original_alloc_\<close>,
  \<^verbatim>\<open>arena_index_\<close>, ...) has the suffix \<open>_m\<close> here.
  \<open>original_alloc_m\<close> is the static \<^verbatim>\<open>std::atomic<extent_alloc_t*>\<close> of the class, initially
  \<^verbatim>\<open>nullptr\<close>; \<open>calls\<close> is the record of the calls issued so far, oldest first.
\<close>

record world =
  original_alloc_m :: extent_alloc_ptr
  calls :: "call list"

definition initial_world :: world where
  "initial_world = \<lparr>original_alloc_m = alloc_nullptr, calls = []\<rparr>"

text \<open>
  A run of a function either returns, or the process ends in it (\<open>Aborted\<close>, carrying the state
  reached): a failed \<^verbatim>\<open>assert\<close> calls \<^verbatim>\<open>abort\<close>. The C library's \<^verbatim>\<open>assert\<close> expands to nothing
  when \<^verbatim>\<open>NDEBUG\<close> is defined, so the two builds differ where an assertion fails.

  Five of the six assertions of the file check what the runtime hands to the code or what
  the class itself maintains: a new arena has a non-zero index (lines 26, 57, 98), every new
  arena has the same allocation hook (line 121), and the hook runs only after a creation
  stored the original function (line 40). They are kept as checks in both builds, so on a
  runtime that broke these promises the model ends the run where a build without assertions
  would go on; for line 40, that build calls through the null pointer in the next line,
  which ends the process as well. The sixth, \<^verbatim>\<open>assert(false)\<close> at line 50, is reached when the operating
  system refuses \<^verbatim>\<open>madvise\<close>, which it can; there the hook is modelled for both builds, by
  \<open>NDEBUG\<close>.
\<close>

datatype 'a outcome =
    Returned 'a world
  | Aborted world

definition record_call :: "call \<Rightarrow> world \<Rightarrow> world" where
  "record_call c w = w\<lparr>calls := calls w @ [c]\<rparr>"

text \<open>
  \<^verbatim>\<open>compare_exchange_strong(expected, desired)\<close> on the atomic holding \<open>cur\<close>: the result is
  the success flag, the new value of \<open>expected\<close> and the new value of the atomic.
\<close>

definition compare_exchange_strong ::
  "extent_alloc_ptr \<Rightarrow> extent_alloc_ptr \<Rightarrow> extent_alloc_ptr \<Rightarrow> bool \<times> extent_alloc_ptr \<times> extent_alloc_ptr" where
  "compare_exchange_strong cur expected desired =
     (if cur = expected then (True, expected, desired) else (False, cur, cur))"

section \<open>The allocator object\<close>

text \<open>\<open>hooks_m\<close> is a \<^verbatim>\<open>std::unique_ptr<extent_hooks_t>\<close>: \<open>None\<close> is the empty pointer.\<close>

record JemallocNodumpAllocator =
  arena_index_m :: nat
  flags_m :: int
  hooks_m :: "extent_hooks_t option"
  info_log_m :: logger

definition JemallocNodumpAllocator_ctor ::
  "nat \<Rightarrow> int \<Rightarrow> extent_hooks_t option \<Rightarrow> logger \<Rightarrow> world \<Rightarrow> JemallocNodumpAllocator outcome" where
  "JemallocNodumpAllocator_ctor arena_index flags hooks info_log w =
     (if arena_index \<noteq> 0
      then Returned \<lparr>arena_index_m = arena_index, flags_m = flags, hooks_m = hooks,
                     info_log_m = info_log\<rparr> w
      else Aborted w)"

definition Allocate :: "env \<Rightarrow> JemallocNodumpAllocator \<Rightarrow> nat \<Rightarrow> world \<Rightarrow> addr \<times> world" where
  "Allocate e a n w =
     (mallocx e (calls w) n (flags_m a), record_call (mallocx_call n (flags_m a)) w)"

definition Deallocate :: "env \<Rightarrow> JemallocNodumpAllocator \<Rightarrow> addr \<Rightarrow> world \<Rightarrow> world" where
  "Deallocate e a p w = record_call (dallocx_call p (flags_m a)) w"

definition UsableSize ::
  "env \<Rightarrow> JemallocNodumpAllocator \<Rightarrow> addr \<Rightarrow> nat \<Rightarrow> world \<Rightarrow> nat \<times> world" where
  "UsableSize e a p allocation_size w =
     (malloc_usable_size e (calls w) p, record_call (malloc_usable_size_call p) w)"

text \<open>
  The hook that the runtime calls for a new extent. A call through \<open>original_alloc\<close> is a
  call of the runtime's function when the pointer is one, and a call of this very function
  when the pointer is \<^verbatim>\<open>&JemallocNodumpAllocator::Alloc\<close>; the latter need not return, so
  the function is a partial one (\<open>None\<close>: no return). After a failed \<^verbatim>\<open>madvise\<close> the code
  prints, asserts \<^verbatim>\<open>false\<close> and then returns \<open>result\<close>: with assertions the process ends at the
  assertion, without them the hook returns.
\<close>

partial_function (option) Alloc ::
  "platform \<Rightarrow> env \<Rightarrow> extent_alloc_args \<Rightarrow> world \<Rightarrow> extent_alloc_result outcome option" where
  "Alloc pf e args w =
     (let original_alloc = original_alloc_m w in
      if original_alloc = alloc_nullptr then Some (Aborted w)
      else
        Option.bind
          (case original_alloc of
             alloc_runtime f \<Rightarrow>
               Some (Returned (extent_alloc e (calls w) f args)
                       (record_call (extent_alloc_call f args) w))
           | alloc_JemallocNodumpAllocator \<Rightarrow> Alloc pf e args w
           | alloc_nullptr \<Rightarrow> Some (Aborted w))
          (\<lambda>called.
             case called of
               Aborted w1 \<Rightarrow> Some (Aborted w1)
             | Returned result w1 \<Rightarrow>
                 if result_ptr result \<noteq> 0 then
                   (let ret = madvise e (calls w1) (result_ptr result) (alloc_size args)
                                (MADV_DONTDUMP pf);
                        w2 = record_call
                               (madvise_call (result_ptr result) (alloc_size args)
                                  (MADV_DONTDUMP pf)) w1
                    in if ret \<noteq> 0 then
                         (let w3 = record_call
                                     (fprintf_stderr
                                        ''JemallocNodumpAllocator failed to set MADV_DONTDUMP, error code: %d''
                                        ret) w2
                          in if NDEBUG pf then Some (Returned result w3) else Some (Aborted w3))
                       else Some (Returned result w2))
                 else Some (Returned result w1)))"

definition JemallocNodumpAllocator_dtor ::
  "platform \<Rightarrow> env \<Rightarrow> JemallocNodumpAllocator \<Rightarrow> world \<Rightarrow> unit outcome" where
  "JemallocNodumpAllocator_dtor pf e a w =
     (if arena_index_m a = 0 then Aborted w
      else
        (let key = ''arena.'' @ ToString pf (int (arena_index_m a)) @ ''.destroy'';
             r = mallctl e (calls w) key False None;
             w1 = record_call (mallctl_call key False None) w
         in if ret r \<noteq> 0 then
              Returned ()
                (record_call
                   (ROCKS_LOG_ERROR (info_log_m a) ''Failed to destroy arena, error code: %d''
                      (ret r)) w1)
            else Returned () w1))"

section \<open>Creating an allocator\<close>

text \<open>
  \<^verbatim>\<open>Status\<close> (declared in \<^verbatim>\<open>include/rocksdb/status.h\<close>) is reduced to the four ways the
  file builds one, each error with its message.
\<close>

datatype Status =
    OK
  | NotSupported string
  | InvalidArgument string
  | Incomplete string

record JemallocNodumpAllocatorOptions =
  info_log :: logger

text \<open>
  A \<^verbatim>\<open>std::shared_ptr<CacheAllocator>\<close> is \<open>None\<close> when it is empty and \<open>Some (a, n)\<close> when it
  holds the allocator \<open>a\<close> that \<open>n\<close> shared pointers own together (its use count). The file
  has one implementation of \<^verbatim>\<open>CacheAllocator\<close>, and the model has no other. Giving up a shared
  pointer destroys the allocator when no other owner is left.
\<close>

type_synonym shared_ptr = "(JemallocNodumpAllocator \<times> nat) option"

definition shared_ptr_release :: "platform \<Rightarrow> env \<Rightarrow> shared_ptr \<Rightarrow> world \<Rightarrow> unit outcome" where
  "shared_ptr_release pf e p w =
     (case p of
        None \<Rightarrow> Returned () w
      | Some (a, use_count) \<Rightarrow>
          if use_count - 1 = 0 then JemallocNodumpAllocator_dtor pf e a w else Returned () w)"

text \<open>
  The output parameter \<^verbatim>\<open>std::shared_ptr<CacheAllocator>* cache_allocator\<close> is \<open>None\<close> when
  it is \<^verbatim>\<open>nullptr\<close> and \<open>Some held\<close> when it points to the shared pointer \<open>held\<close>. The function
  returns its status together with what the parameter points to afterwards. The assignment
  in the last statement builds the new allocator first and then gives up what the shared
  pointer held before.
\<close>

definition NewJemallocNodumpAllocator ::
  "platform \<Rightarrow> env \<Rightarrow> JemallocNodumpAllocatorOptions \<Rightarrow> shared_ptr option \<Rightarrow>
   world \<Rightarrow> (Status \<times> shared_ptr option) outcome" where
  "NewJemallocNodumpAllocator pf e options cache_allocator w =
     (if \<not> ROCKSDB_JEMALLOC_NODUMP_ALLOCATOR pf then
        Returned
          (NotSupported
             ''JemallocNodumpAllocator only available with jemalloc version >= 5 and MADV_DONTDUMP is available.'',
           cache_allocator) w
      else
        (case cache_allocator of
           None \<Rightarrow> Returned (InvalidArgument ''cache_allocator is nullptr.'', cache_allocator) w
         | Some held \<Rightarrow>
        (let r1 = mallctl e (calls w) ''arenas.create'' True None;
             w1 = record_call (mallctl_call ''arenas.create'' True None) w;
             arena_index = old_unsigned r1
         in if ret r1 \<noteq> 0 then
              Returned
                (Incomplete (''Failed to create jemalloc arena, error code: '' @ ToString pf (ret r1)),
                 cache_allocator)
                (record_call
                   (ROCKS_LOG_ERROR (info_log options)
                      ''Failed to create jemalloc arena, error code: %d'' (ret r1)) w1)
            else if arena_index = 0 then Aborted w1
            else
              (let flags = MALLOCX_ARENA pf arena_index OR MALLOCX_TCACHE_NONE pf;
                   key = ''arena.'' @ ToString pf (int arena_index) @ ''.extent_hooks'';
                   r2 = mallctl e (calls w1) key True None;
                   w2 = record_call (mallctl_call key True None) w1;
                   hooks = old_hooks r2
               in if ret r2 \<noteq> 0 then
                    Returned
                      (Incomplete (''Failed to read existing hooks, error code: '' @ ToString pf (ret r2)),
                       cache_allocator)
                      (record_call
                         (ROCKS_LOG_ERROR (info_log options)
                            ''Failed to read existing hooks, error code: %d'' (ret r2)) w2)
                  else
                    (let original_alloc = alloc hooks;
                         (success, expected, stored) =
                           compare_exchange_strong (original_alloc_m w2) alloc_nullptr original_alloc;
                         w3 = w2\<lparr>original_alloc_m := stored\<rparr>
                     in if \<not> (success \<or> original_alloc = expected) then Aborted w3
                        else
                          (let new_hooks = hooks\<lparr>alloc := alloc_JemallocNodumpAllocator\<rparr>;
                               r3 = mallctl e (calls w3) key False (Some new_hooks);
                               w4 = record_call (mallctl_call key False (Some new_hooks)) w3
                           in if ret r3 \<noteq> 0 then
                                Returned
                                  (Incomplete (''Failed to set custom hook, error code: '' @ ToString pf (ret r3)),
                                   cache_allocator)
                                  (record_call
                                     (ROCKS_LOG_ERROR (info_log options)
                                        ''Failed to set custom hook, error code: %d'' (ret r3)) w4)
                              else
                                (case JemallocNodumpAllocator_ctor arena_index flags (Some new_hooks)
                                        (info_log options) w4 of
                                   Aborted w5 \<Rightarrow> Aborted w5
                                 | Returned a w5 \<Rightarrow>
                                     (case shared_ptr_release pf e held w5 of
                                        Aborted w6 \<Rightarrow> Aborted w6
                                      | Returned u w6 \<Rightarrow>
                                          Returned (OK, Some (Some (a, 1))) w6))))))))"

section \<open>Processes: sequences of operations\<close>

text \<open>
  A process is a sequence of calls of the operations above, the runtime answering from the
  same oracle throughout. \<open>perform\<close> gives the state after one operation, or \<open>None\<close> when the
  operation did not return (an assertion aborted the process, or the hook called itself for
  ever).
\<close>

datatype operation =
    op_create JemallocNodumpAllocatorOptions "shared_ptr option"
  | op_Allocate JemallocNodumpAllocator nat
  | op_Deallocate JemallocNodumpAllocator addr
  | op_UsableSize JemallocNodumpAllocator addr nat
  | op_Alloc extent_alloc_args
  | op_destroy JemallocNodumpAllocator

fun world_after :: "'a outcome \<Rightarrow> world option" where
  "world_after (Returned x w) = Some w"
| "world_after (Aborted w) = None"

fun perform :: "platform \<Rightarrow> env \<Rightarrow> operation \<Rightarrow> world \<Rightarrow> world option" where
  "perform pf e (op_create options cache_allocator) w =
     world_after (NewJemallocNodumpAllocator pf e options cache_allocator w)"
| "perform pf e (op_Allocate a n) w = Some (snd (Allocate e a n w))"
| "perform pf e (op_Deallocate a p) w = Some (Deallocate e a p w)"
| "perform pf e (op_UsableSize a p n) w = Some (snd (UsableSize e a p n w))"
| "perform pf e (op_Alloc args) w = Option.bind (Alloc pf e args w) world_after"
| "perform pf e (op_destroy a) w = world_after (JemallocNodumpAllocator_dtor pf e a w)"

fun run_process :: "platform \<Rightarrow> env \<Rightarrow> operation list \<Rightarrow> world \<Rightarrow> world option" where
  "run_process pf e [] w = Some w"
| "run_process pf e (x # xs) w = Option.bind (perform pf e x w) (run_process pf e xs)"

section \<open>Names for what the runtime answers during a creation\<close>

text \<open>
  The statements below speak of the runtime's answers to the three \<^verbatim>\<open>mallctl\<close> calls of
  \<open>NewJemallocNodumpAllocator\<close> started in state \<open>w\<close>: the creation of the arena, the
  reading of its hook table and the writing of the new one. These functions only name the
  oracle's answers at the histories at which the code asks.
\<close>

definition extent_hooks_key :: "platform \<Rightarrow> nat \<Rightarrow> string" where
  "extent_hooks_key pf i = ''arena.'' @ ToString pf (int i) @ ''.extent_hooks''"

definition destroy_key :: "platform \<Rightarrow> nat \<Rightarrow> string" where
  "destroy_key pf i = ''arena.'' @ ToString pf (int i) @ ''.destroy''"

definition create_reply :: "env \<Rightarrow> world \<Rightarrow> mallctl_reply" where
  "create_reply e w = mallctl e (calls w) ''arenas.create'' True None"

definition created_arena :: "env \<Rightarrow> world \<Rightarrow> nat" where
  "created_arena e w = old_unsigned (create_reply e w)"

definition read_reply :: "platform \<Rightarrow> env \<Rightarrow> world \<Rightarrow> mallctl_reply" where
  "read_reply pf e w =
     mallctl e (calls w @ [mallctl_call ''arenas.create'' True None])
       (extent_hooks_key pf (created_arena e w)) True None"

definition arena_hooks :: "platform \<Rightarrow> env \<Rightarrow> world \<Rightarrow> extent_hooks_t" where
  "arena_hooks pf e w = old_hooks (read_reply pf e w)"

definition write_reply :: "platform \<Rightarrow> env \<Rightarrow> world \<Rightarrow> extent_hooks_t \<Rightarrow> mallctl_reply" where
  "write_reply pf e w t =
     mallctl e
       (calls w @ [mallctl_call ''arenas.create'' True None,
                   mallctl_call (extent_hooks_key pf (created_arena e w)) True None])
       (extent_hooks_key pf (created_arena e w)) False (Some t)"

text \<open>The calls that an operation added to the record: those of \<open>w'\<close> after those of \<open>w\<close>.\<close>

definition issued :: "world \<Rightarrow> world \<Rightarrow> call list" where
  "issued w w' = drop (length (calls w)) (calls w')"

section \<open>A runtime to run the code against\<close>

text \<open>
  A concrete platform and a concrete, well-behaved runtime, used to run the definitions on
  examples. The platform has the flag macros of jemalloc 5 and the advice number of Linux;
  \<open>decimal\<close> prints an \<^verbatim>\<open>int\<close> as \<^verbatim>\<open>std::to_string\<close> does. \<^verbatim>\<open>MALLOCX_ARENA(a)\<close> is
  \<^verbatim>\<open>((int)(a) + 1) << 20\<close> on 32-bit integers: the arithmetic is done on 32-bit words and the
  result read as a signed number. \<open>jemalloc5_linux\<close> is the build with assertions,
  \<open>jemalloc5_linux_release\<close> the one with \<^verbatim>\<open>NDEBUG\<close>.
\<close>

fun decimal_nat :: "nat \<Rightarrow> string" where
  "decimal_nat n =
     (if n < 10 then [char_of (48 + n)] else decimal_nat (n div 10) @ [char_of (48 + n mod 10)])"

declare decimal_nat.simps [simp del]

definition decimal :: "int \<Rightarrow> string" where
  "decimal i = (if i < 0 then CHR ''-'' # decimal_nat (nat (- i)) else decimal_nat (nat i))"

definition jemalloc5_linux :: platform where
  "jemalloc5_linux =
     \<lparr>ROCKSDB_JEMALLOC_NODUMP_ALLOCATOR = True,
      NDEBUG = False,
      MALLOCX_ARENA = (\<lambda>a. sint (push_bit 20 (word_of_nat a + 1 :: 32 word))),
      MALLOCX_TCACHE_NONE = 256,
      MADV_DONTDUMP = 16,
      ToString = decimal\<rparr>"

definition jemalloc5_linux_release :: platform where
  "jemalloc5_linux_release = jemalloc5_linux\<lparr>NDEBUG := True\<rparr>"

definition default_hooks :: extent_hooks_t where
  "default_hooks =
     \<lparr>alloc = alloc_runtime 100, dalloc = 101, destroy = 102, commit = 103, decommit = 104,
      purge_lazy = 105, purge_forced = 106, split = 107, merge = 108\<rparr>"

fun is_arenas_create :: "call \<Rightarrow> bool" where
  "is_arenas_create (mallctl_call name oldp newp) = (name = ''arenas.create'')"
| "is_arenas_create c = False"

definition size_class :: "nat \<Rightarrow> nat" where
  "size_class n = 16 * ((n + 15) div 16)"

text \<open>The size asked for by the latest call, when that call is a \<^verbatim>\<open>mallocx\<close>.\<close>

definition latest_request :: "call list \<Rightarrow> nat" where
  "latest_request cs = (case rev cs of mallocx_call n fl # older \<Rightarrow> n | _ \<Rightarrow> 0)"

text \<open>
  The example runtime numbers its arenas from 1, gives every new arena \<open>default_hooks\<close>,
  accepts every other control request, hands out fresh non-null addresses, reports as
  usable size the size class of the block just allocated, and answers \<^verbatim>\<open>madvise\<close> with
  \<open>madvise_ret\<close>.
\<close>

definition example_env :: "int \<Rightarrow> env" where
  "example_env madvise_ret =
     \<lparr>mallctl = (\<lambda>cs name oldp newp.
         \<lparr>ret = 0, old_unsigned = 1 + length (filter is_arenas_create cs),
          old_hooks = default_hooks\<rparr>),
      mallocx = (\<lambda>cs n fl. 4096 * (1 + length cs)),
      malloc_usable_size = (\<lambda>cs p. size_class (latest_request cs)),
      extent_alloc = (\<lambda>cs f args.
         \<lparr>result_ptr = 2097152 * (1 + length cs), zero_out = True, commit_out = True\<rparr>),
      madvise = (\<lambda>cs p n advice. madvise_ret)\<rparr>"

text \<open>A runtime that answers every control request with the error code \<open>code\<close> from the
  \<open>k\<close>-th call of the process on (counting from 0), and is \<open>example_env 0\<close> otherwise.\<close>

definition failing_env :: "nat \<Rightarrow> int \<Rightarrow> env" where
  "failing_env k code =
     (example_env 0)\<lparr>mallctl := (\<lambda>cs name oldp newp.
        (mallctl (example_env 0) cs name oldp newp)\<lparr>ret := (if k \<le> length cs then code else 0)\<rparr>)\<rparr>"

text \<open>A request for two pages in arena 1, and a state in which the original allocation
  function of the process is the default one of the example runtime.\<close>

definition example_args :: extent_alloc_args where
  "example_args =
     \<lparr>extent = 7, new_addr = 0, alloc_size = 8192, alignment = 4096, zero_in = False,
      commit_in = True, arena_ind = 1\<rparr>"

definition hooked_world :: world where
  "hooked_world = initial_world\<lparr>original_alloc_m := alloc_runtime 100\<rparr>"

text \<open>A runtime like \<open>example_env 0\<close> whose \<^verbatim>\<open>arenas.create\<close> succeeds with the index 0.\<close>

definition zero_arena_env :: env where
  "zero_arena_env =
     (example_env 0)\<lparr>mallctl := (\<lambda>cs name oldp newp.
        \<lparr>ret = 0, old_unsigned = 0, old_hooks = default_hooks\<rparr>)\<rparr>"

definition example_options :: JemallocNodumpAllocatorOptions where
  "example_options = \<lparr>info_log = Some 1\<rparr>"

text \<open>
  The allocators and the states that two creations in a row reach on the example runtime,
  starting from \<open>initial_world\<close>.
\<close>

definition custom_hooks :: extent_hooks_t where
  "custom_hooks = default_hooks\<lparr>alloc := alloc_JemallocNodumpAllocator\<rparr>"

definition first_allocator :: JemallocNodumpAllocator where
  "first_allocator =
     \<lparr>arena_index_m = 1, flags_m = 2097408, hooks_m = Some custom_hooks, info_log_m = Some 1\<rparr>"

definition first_world :: world where
  "first_world =
     \<lparr>original_alloc_m = alloc_runtime 100,
      calls = [mallctl_call ''arenas.create'' True None,
               mallctl_call ''arena.1.extent_hooks'' True None,
               mallctl_call ''arena.1.extent_hooks'' False (Some custom_hooks)]\<rparr>"

definition second_allocator :: JemallocNodumpAllocator where
  "second_allocator =
     \<lparr>arena_index_m = 2, flags_m = 3145984, hooks_m = Some custom_hooks, info_log_m = Some 1\<rparr>"

definition second_world :: world where
  "second_world =
     \<lparr>original_alloc_m = alloc_runtime 100,
      calls = calls first_world @
              [mallocx_call 100 2097408,
               mallctl_call ''arenas.create'' True None,
               mallctl_call ''arena.2.extent_hooks'' True None,
               mallctl_call ''arena.2.extent_hooks'' False (Some custom_hooks)]\<rparr>"

text \<open>
  The state after a second creation made right after the first, through an output parameter
  that held \<open>first_allocator\<close> as its only owner: the assignment released it.
\<close>

definition replaced_world :: world where
  "replaced_world =
     \<lparr>original_alloc_m = alloc_runtime 100,
      calls = calls first_world @
              [mallctl_call ''arenas.create'' True None,
               mallctl_call ''arena.2.extent_hooks'' True None,
               mallctl_call ''arena.2.extent_hooks'' False (Some custom_hooks),
               mallctl_call ''arena.1.destroy'' False None]\<rparr>"

section \<open>The extent allocation hook\<close>

text \<open>
  The hook unfolds to one of five behaviours, by the value of the original allocation
  function of the process and the answers of the runtime and of the operating system.
\<close>

lemma Alloc_nullptr:
  "original_alloc_m w = alloc_nullptr \<Longrightarrow> Alloc pf e args w = Some (Aborted w)"
  by (subst Alloc.simps) simp

lemma Alloc_runtime_null:
  assumes "original_alloc_m w = alloc_runtime f"
    and "result_ptr (extent_alloc e (calls w) f args) = 0"
  shows "Alloc pf e args w =
           Some (Returned (extent_alloc e (calls w) f args)
                   (record_call (extent_alloc_call f args) w))"
  using assms by (subst Alloc.simps) (simp add: Let_def)

lemma Alloc_runtime_advised:
  assumes "original_alloc_m w = alloc_runtime f"
    and "result_ptr (extent_alloc e (calls w) f args) \<noteq> 0"
    and "madvise e (calls w @ [extent_alloc_call f args])
           (result_ptr (extent_alloc e (calls w) f args)) (alloc_size args) (MADV_DONTDUMP pf) = 0"
  shows "Alloc pf e args w =
           Some (Returned (extent_alloc e (calls w) f args)
                   (record_call
                      (madvise_call (result_ptr (extent_alloc e (calls w) f args)) (alloc_size args)
                         (MADV_DONTDUMP pf))
                      (record_call (extent_alloc_call f args) w)))"
  using assms by (subst Alloc.simps) (simp add: Let_def record_call_def)

text \<open>The state in which the hook is after a failed \<^verbatim>\<open>madvise\<close> and its report.\<close>

lemma Alloc_runtime_failed:
  assumes "original_alloc_m w = alloc_runtime f"
    and "result_ptr (extent_alloc e (calls w) f args) \<noteq> 0"
    and "madvise e (calls w @ [extent_alloc_call f args])
           (result_ptr (extent_alloc e (calls w) f args)) (alloc_size args) (MADV_DONTDUMP pf) \<noteq> 0"
  shows "Alloc pf e args w =
           Some ((if NDEBUG pf then Returned (extent_alloc e (calls w) f args) else Aborted)
                   (w\<lparr>calls := calls w @
                        [extent_alloc_call f args,
                         madvise_call (result_ptr (extent_alloc e (calls w) f args))
                           (alloc_size args) (MADV_DONTDUMP pf),
                         fprintf_stderr
                           ''JemallocNodumpAllocator failed to set MADV_DONTDUMP, error code: %d''
                           (madvise e (calls w @ [extent_alloc_call f args])
                              (result_ptr (extent_alloc e (calls w) f args)) (alloc_size args)
                              (MADV_DONTDUMP pf))]\<rparr>))"
  using assms by (subst Alloc.simps) (simp add: Let_def record_call_def)

lemma Alloc_self_aux:
  assumes "Alloc pf e args w = Some out"
  shows "original_alloc_m w \<noteq> alloc_JemallocNodumpAllocator"
  by (rule Alloc.raw_induct
        [where P = "\<lambda>pf e args w out. original_alloc_m w \<noteq> alloc_JemallocNodumpAllocator",
         OF _ assms])
     (auto simp: Let_def split: if_splits extent_alloc_ptr.splits Option.bind_splits)

lemma Alloc_self:
  "original_alloc_m w = alloc_JemallocNodumpAllocator \<Longrightarrow> Alloc pf e args w = None"
  using Alloc_self_aux by (cases "Alloc pf e args w") auto

text \<open>Every return of the hook is one of the returning cases above.\<close>

lemma Alloc_Returned:
  assumes "Alloc pf e args w = Some (Returned r w')"
  shows "\<exists>f. original_alloc_m w = alloc_runtime f \<and>
             r = extent_alloc e (calls w) f args \<and>
             (if result_ptr r = 0 then w' = record_call (extent_alloc_call f args) w
              else if madvise e (calls w @ [extent_alloc_call f args]) (result_ptr r)
                        (alloc_size args) (MADV_DONTDUMP pf) = 0
              then w' = record_call
                          (madvise_call (result_ptr r) (alloc_size args) (MADV_DONTDUMP pf))
                          (record_call (extent_alloc_call f args) w)
              else NDEBUG pf \<and>
                   w' = w\<lparr>calls := calls w @
                          [extent_alloc_call f args,
                           madvise_call (result_ptr r) (alloc_size args) (MADV_DONTDUMP pf),
                           fprintf_stderr
                             ''JemallocNodumpAllocator failed to set MADV_DONTDUMP, error code: %d''
                             (madvise e (calls w @ [extent_alloc_call f args]) (result_ptr r)
                                (alloc_size args) (MADV_DONTDUMP pf))]\<rparr>)"
proof (cases "original_alloc_m w")
  case alloc_nullptr
  with assms show ?thesis by (simp add: Alloc_nullptr)
next
  case alloc_JemallocNodumpAllocator
  with assms show ?thesis by (simp add: Alloc_self)
next
  case (alloc_runtime f)
  let ?r = "extent_alloc e (calls w) f args"
  show ?thesis
  proof (cases "result_ptr ?r = 0")
    case True
    with assms alloc_runtime show ?thesis
      by (auto simp: Alloc_runtime_null)
  next
    case False
    show ?thesis
    proof (cases "madvise e (calls w @ [extent_alloc_call f args]) (result_ptr ?r)
                    (alloc_size args) (MADV_DONTDUMP pf) = 0")
      case True
      with assms alloc_runtime False show ?thesis
        by (auto simp: Alloc_runtime_advised)
    next
      case nz: False
      with assms alloc_runtime False show ?thesis
        by (auto simp: Alloc_runtime_failed split: if_splits)
    qed
  qed
qed




text \<open>
  Claim C3. Every call of the hook loads the original allocation function of the process and
  aborts on the assertion when it is null; a call that returns has called that function
  first, with exactly the parameters the hook received, and returns that function's result
  (pointer and both output flags) unchanged, leaving the original allocation function as it
  was; and the hook does return that result whenever the extent is null or the advice call
  answers 0.
\<close>

theorem Alloc_delegates_unchanged:
  "(original_alloc_m w = alloc_nullptr \<longrightarrow> Alloc pf e args w = Some (Aborted w)) \<and>
   (\<forall>r w'. Alloc pf e args w = Some (Returned r w') \<longrightarrow>
        (\<exists>f cs. original_alloc_m w = alloc_runtime f \<and>
               r = extent_alloc e (calls w) f args \<and>
               calls w' = calls w @ extent_alloc_call f args # cs \<and>
               original_alloc_m w' = original_alloc_m w)) \<and>
   (\<forall>f. original_alloc_m w = alloc_runtime f \<longrightarrow>
        (result_ptr (extent_alloc e (calls w) f args) = 0 \<or>
         madvise e (calls w @ [extent_alloc_call f args])
           (result_ptr (extent_alloc e (calls w) f args)) (alloc_size args) (MADV_DONTDUMP pf) = 0) \<longrightarrow>
        (\<exists>w'. Alloc pf e args w = Some (Returned (extent_alloc e (calls w) f args) w')))"
proof (intro conjI allI impI)
  assume "original_alloc_m w = alloc_nullptr"
  then show "Alloc pf e args w = Some (Aborted w)"
    by (rule Alloc_nullptr)
next
  fix r w'
  assume "Alloc pf e args w = Some (Returned r w')"
  from Alloc_Returned [OF this]
  show "\<exists>f cs. original_alloc_m w = alloc_runtime f \<and>
               r = extent_alloc e (calls w) f args \<and>
               calls w' = calls w @ extent_alloc_call f args # cs \<and>
               original_alloc_m w' = original_alloc_m w"
    by (auto simp: record_call_def split: if_splits)
next
  fix f
  assume slot: "original_alloc_m w = alloc_runtime f"
    and "result_ptr (extent_alloc e (calls w) f args) = 0 \<or>
         madvise e (calls w @ [extent_alloc_call f args])
           (result_ptr (extent_alloc e (calls w) f args)) (alloc_size args) (MADV_DONTDUMP pf) = 0"
  then show "\<exists>w'. Alloc pf e args w = Some (Returned (extent_alloc e (calls w) f args) w')"
    by (cases "result_ptr (extent_alloc e (calls w) f args) = 0")
       (simp_all add: Alloc_runtime_null Alloc_runtime_advised)
qed

theorem Alloc_delegates_unchanged_witness:
  "Alloc jemalloc5_linux (example_env 0) example_args initial_world = Some (Aborted initial_world) \<and>
   (\<exists>w' cs.
      Alloc jemalloc5_linux (example_env 0) example_args hooked_world =
        Some (Returned \<lparr>result_ptr = 2097152, zero_out = True, commit_out = True\<rparr> w') \<and>
      calls w' = extent_alloc_call 100 example_args # cs \<and>
      original_alloc_m w' = alloc_runtime 100)"
proof -
  note main = Alloc_delegates_unchanged
  have null: "original_alloc_m initial_world = alloc_nullptr"
    by (simp add: initial_world_def)
  have slot: "original_alloc_m hooked_world = alloc_runtime 100"
    by (simp add: hooked_world_def initial_world_def)
  have r: "extent_alloc (example_env 0) (calls hooked_world) 100 example_args =
             \<lparr>result_ptr = 2097152, zero_out = True, commit_out = True\<rparr>"
    by (simp add: example_env_def hooked_world_def initial_world_def)
  have ok: "result_ptr (extent_alloc (example_env 0) (calls hooked_world) 100 example_args) = 0 \<or>
      madvise (example_env 0) (calls hooked_world @ [extent_alloc_call 100 example_args])
        (result_ptr (extent_alloc (example_env 0) (calls hooked_world) 100 example_args))
        (alloc_size example_args) (MADV_DONTDUMP jemalloc5_linux) = 0"
    by (simp add: example_env_def)
  from main [of initial_world jemalloc5_linux "example_env 0" example_args, THEN conjunct1,
            rule_format, OF null]
  have first: "Alloc jemalloc5_linux (example_env 0) example_args initial_world =
                 Some (Aborted initial_world)" .
  from main [of hooked_world jemalloc5_linux "example_env 0" example_args,
            THEN conjunct2, THEN conjunct2, rule_format, OF slot ok]
  obtain w' where run: "Alloc jemalloc5_linux (example_env 0) example_args hooked_world =
      Some (Returned (extent_alloc (example_env 0) (calls hooked_world) 100 example_args) w')"
    by blast
  from main [of hooked_world jemalloc5_linux "example_env 0" example_args,
            THEN conjunct2, THEN conjunct1, rule_format, OF run] slot
  obtain cs where "calls w' = calls hooked_world @ extent_alloc_call 100 example_args # cs"
    and "original_alloc_m w' = alloc_runtime 100"
    by auto
  with run r first show ?thesis
    by (auto simp: hooked_world_def initial_world_def)
qed

section \<open>What a creation does, case by case\<close>

text \<open>
  \<open>NewJemallocNodumpAllocator\<close> with a non-null output parameter takes one of seven
  paths, told apart by the build and by the answers of the runtime. Each lemma gives the
  result and the final state of one path; the successful path ends with the release of what
  the output parameter held.
\<close>

lemmas reply_defs =
  create_reply_def created_arena_def read_reply_def arena_hooks_def write_reply_def
  extent_hooks_key_def

lemma NewJ_not_supported:
  assumes "\<not> ROCKSDB_JEMALLOC_NODUMP_ALLOCATOR pf"
  shows "NewJemallocNodumpAllocator pf e options cache_allocator w =
           Returned
             (NotSupported
                ''JemallocNodumpAllocator only available with jemalloc version >= 5 and MADV_DONTDUMP is available.'',
              cache_allocator) w"
  using assms by (simp add: NewJemallocNodumpAllocator_def)

lemma NewJ_nullptr:
  assumes "ROCKSDB_JEMALLOC_NODUMP_ALLOCATOR pf"
  shows "NewJemallocNodumpAllocator pf e options None w =
           Returned (InvalidArgument ''cache_allocator is nullptr.'', None) w"
  using assms by (simp add: NewJemallocNodumpAllocator_def)

lemma NewJ_create_fails:
  assumes "ROCKSDB_JEMALLOC_NODUMP_ALLOCATOR pf"
    and "ret (create_reply e w) \<noteq> 0"
  shows "NewJemallocNodumpAllocator pf e options (Some s) w =
           Returned
             (Incomplete
                (''Failed to create jemalloc arena, error code: '' @ ToString pf (ret (create_reply e w))),
              Some s)
             (w\<lparr>calls := calls w @
                   [mallctl_call ''arenas.create'' True None,
                    ROCKS_LOG_ERROR (info_log options)
                      ''Failed to create jemalloc arena, error code: %d'' (ret (create_reply e w))]\<rparr>)"
  using assms by (simp add: NewJemallocNodumpAllocator_def Let_def record_call_def reply_defs)

lemma NewJ_zero_index:
  assumes "ROCKSDB_JEMALLOC_NODUMP_ALLOCATOR pf"
    and "ret (create_reply e w) = 0"
    and "created_arena e w = 0"
  shows "NewJemallocNodumpAllocator pf e options (Some s) w =
           Aborted (w\<lparr>calls := calls w @ [mallctl_call ''arenas.create'' True None]\<rparr>)"
  using assms by (simp add: NewJemallocNodumpAllocator_def Let_def record_call_def reply_defs)

lemma NewJ_read_fails:
  assumes "ROCKSDB_JEMALLOC_NODUMP_ALLOCATOR pf"
    and "ret (create_reply e w) = 0"
    and "created_arena e w \<noteq> 0"
    and "ret (read_reply pf e w) \<noteq> 0"
  shows "NewJemallocNodumpAllocator pf e options (Some s) w =
           Returned
             (Incomplete
                (''Failed to read existing hooks, error code: '' @ ToString pf (ret (read_reply pf e w))),
              Some s)
             (w\<lparr>calls := calls w @
                   [mallctl_call ''arenas.create'' True None,
                    mallctl_call (extent_hooks_key pf (created_arena e w)) True None,
                    ROCKS_LOG_ERROR (info_log options)
                      ''Failed to read existing hooks, error code: %d'' (ret (read_reply pf e w))]\<rparr>)"
  using assms by (simp add: NewJemallocNodumpAllocator_def Let_def record_call_def reply_defs)

lemma NewJ_mismatch:
  assumes "ROCKSDB_JEMALLOC_NODUMP_ALLOCATOR pf"
    and "ret (create_reply e w) = 0"
    and "created_arena e w \<noteq> 0"
    and "ret (read_reply pf e w) = 0"
    and "original_alloc_m w \<noteq> alloc_nullptr"
    and "alloc (arena_hooks pf e w) \<noteq> original_alloc_m w"
  shows "NewJemallocNodumpAllocator pf e options (Some s) w =
           Aborted
             (w\<lparr>calls := calls w @
                   [mallctl_call ''arenas.create'' True None,
                    mallctl_call (extent_hooks_key pf (created_arena e w)) True None]\<rparr>)"
  using assms
  by (simp add: NewJemallocNodumpAllocator_def Let_def record_call_def reply_defs
        compare_exchange_strong_def)

lemma NewJ_write_fails:
  assumes "ROCKSDB_JEMALLOC_NODUMP_ALLOCATOR pf"
    and "ret (create_reply e w) = 0"
    and "created_arena e w \<noteq> 0"
    and "ret (read_reply pf e w) = 0"
    and "original_alloc_m w = alloc_nullptr \<or> alloc (arena_hooks pf e w) = original_alloc_m w"
    and "ret (write_reply pf e w ((arena_hooks pf e w)\<lparr>alloc := alloc_JemallocNodumpAllocator\<rparr>)) \<noteq> 0"
  shows "NewJemallocNodumpAllocator pf e options (Some s) w =
           Returned
             (Incomplete
                (''Failed to set custom hook, error code: '' @
                 ToString pf
                   (ret (write_reply pf e w
                           ((arena_hooks pf e w)\<lparr>alloc := alloc_JemallocNodumpAllocator\<rparr>)))),
              Some s)
             (w\<lparr>original_alloc_m := alloc (arena_hooks pf e w),
                 calls := calls w @
                   [mallctl_call ''arenas.create'' True None,
                    mallctl_call (extent_hooks_key pf (created_arena e w)) True None,
                    mallctl_call (extent_hooks_key pf (created_arena e w)) False
                      (Some ((arena_hooks pf e w)\<lparr>alloc := alloc_JemallocNodumpAllocator\<rparr>)),
                    ROCKS_LOG_ERROR (info_log options) ''Failed to set custom hook, error code: %d''
                      (ret (write_reply pf e w
                              ((arena_hooks pf e w)\<lparr>alloc := alloc_JemallocNodumpAllocator\<rparr>)))]\<rparr>)"
  using assms
  by (auto simp: NewJemallocNodumpAllocator_def Let_def record_call_def reply_defs
        compare_exchange_strong_def)

text \<open>
  Giving up a shared pointer leaves the original allocation function alone, adds no write of
  a hook table, and ends the process only on the destructor's assertion.
\<close>

lemma shared_ptr_release_cases:
  "(\<exists>rs. shared_ptr_release pf e s w = Returned () (w\<lparr>calls := calls w @ rs\<rparr>) \<and>
         (\<forall>k t. mallctl_call k False (Some t) \<notin> set rs)) \<or>
   (shared_ptr_release pf e s w = Aborted w \<and>
    (\<exists>a n. s = Some (a, n) \<and> n - 1 = 0 \<and> arena_index_m a = 0))"
proof (cases s)
  case None
  have "shared_ptr_release pf e None w = Returned () (w\<lparr>calls := calls w @ []\<rparr>)"
    by (simp add: shared_ptr_release_def)
  with None show ?thesis
    by (metis empty_iff list.set(1))
next
  case (Some held)
  obtain a n where held: "held = (a, n)"
    by (cases held)
  show ?thesis
  proof (cases "n - 1 = 0")
    case False
    then have "shared_ptr_release pf e s w = Returned () (w\<lparr>calls := calls w @ []\<rparr>)"
      by (simp add: shared_ptr_release_def Some held)
    then show ?thesis
      by (metis empty_iff list.set(1))
  next
    case last: True
    show ?thesis
    proof (cases "arena_index_m a = 0")
      case True
      with last show ?thesis
        by (simp add: shared_ptr_release_def Some held JemallocNodumpAllocator_dtor_def)
    next
      case False
      let ?key = "''arena.'' @ ToString pf (int (arena_index_m a)) @ ''.destroy''"
      let ?r = "mallctl e (calls w) ?key False None"
      let ?rs = "mallctl_call ?key False None #
                 (if ret ?r \<noteq> 0
                  then [ROCKS_LOG_ERROR (info_log_m a) ''Failed to destroy arena, error code: %d''
                          (ret ?r)]
                  else [])"
      from False last
      have "shared_ptr_release pf e s w = Returned () (w\<lparr>calls := calls w @ ?rs\<rparr>)"
        by (simp add: shared_ptr_release_def Some held JemallocNodumpAllocator_dtor_def Let_def
              record_call_def)
      moreover have "\<forall>k t. mallctl_call k False (Some t) \<notin> set ?rs"
        by simp
      ultimately show ?thesis
        by blast
    qed
  qed
qed

lemma world_slot_same:
  "original_alloc_m w = x \<Longrightarrow> w\<lparr>original_alloc_m := x, calls := cs\<rparr> = w\<lparr>calls := cs\<rparr>"
  by simp

lemma NewJ_written:
  assumes "ROCKSDB_JEMALLOC_NODUMP_ALLOCATOR pf"
    and "ret (create_reply e w) = 0"
    and "created_arena e w \<noteq> 0"
    and "ret (read_reply pf e w) = 0"
    and "original_alloc_m w = alloc_nullptr \<or> alloc (arena_hooks pf e w) = original_alloc_m w"
    and "ret (write_reply pf e w ((arena_hooks pf e w)\<lparr>alloc := alloc_JemallocNodumpAllocator\<rparr>)) = 0"
  shows "NewJemallocNodumpAllocator pf e options (Some s) w =
           (case shared_ptr_release pf e s
                   (w\<lparr>original_alloc_m := alloc (arena_hooks pf e w),
                      calls := calls w @
                        [mallctl_call ''arenas.create'' True None,
                         mallctl_call (extent_hooks_key pf (created_arena e w)) True None,
                         mallctl_call (extent_hooks_key pf (created_arena e w)) False
                           (Some ((arena_hooks pf e w)\<lparr>alloc := alloc_JemallocNodumpAllocator\<rparr>))]\<rparr>) of
              Aborted w6 \<Rightarrow> Aborted w6
            | Returned u w6 \<Rightarrow>
                Returned
                  (OK,
                   Some (Some
                     (\<lparr>arena_index_m = created_arena e w,
                       flags_m = MALLOCX_ARENA pf (created_arena e w) OR MALLOCX_TCACHE_NONE pf,
                       hooks_m = Some ((arena_hooks pf e w)\<lparr>alloc := alloc_JemallocNodumpAllocator\<rparr>),
                       info_log_m = info_log options\<rparr>, 1))) w6)"
  using assms
  by (elim disjE)
     (simp_all add: NewJemallocNodumpAllocator_def Let_def record_call_def reply_defs
        compare_exchange_strong_def JemallocNodumpAllocator_ctor_def world_slot_same
        cong: outcome.case_cong)

lemma NewJ_ok:
  assumes "ROCKSDB_JEMALLOC_NODUMP_ALLOCATOR pf"
    and "ret (create_reply e w) = 0"
    and "created_arena e w \<noteq> 0"
    and "ret (read_reply pf e w) = 0"
    and "original_alloc_m w = alloc_nullptr \<or> alloc (arena_hooks pf e w) = original_alloc_m w"
    and "ret (write_reply pf e w ((arena_hooks pf e w)\<lparr>alloc := alloc_JemallocNodumpAllocator\<rparr>)) = 0"
  shows "(\<exists>rs. NewJemallocNodumpAllocator pf e options (Some s) w =
             Returned
               (OK,
                Some (Some
                  (\<lparr>arena_index_m = created_arena e w,
                    flags_m = MALLOCX_ARENA pf (created_arena e w) OR MALLOCX_TCACHE_NONE pf,
                    hooks_m = Some ((arena_hooks pf e w)\<lparr>alloc := alloc_JemallocNodumpAllocator\<rparr>),
                    info_log_m = info_log options\<rparr>, 1)))
               (w\<lparr>original_alloc_m := alloc (arena_hooks pf e w),
                   calls := calls w @
                     mallctl_call ''arenas.create'' True None #
                     mallctl_call (extent_hooks_key pf (created_arena e w)) True None #
                     mallctl_call (extent_hooks_key pf (created_arena e w)) False
                       (Some ((arena_hooks pf e w)\<lparr>alloc := alloc_JemallocNodumpAllocator\<rparr>)) #
                     rs\<rparr>) \<and>
             (\<forall>k t. mallctl_call k False (Some t) \<notin> set rs)) \<or>
         (NewJemallocNodumpAllocator pf e options (Some s) w =
            Aborted
              (w\<lparr>original_alloc_m := alloc (arena_hooks pf e w),
                  calls := calls w @
                    [mallctl_call ''arenas.create'' True None,
                     mallctl_call (extent_hooks_key pf (created_arena e w)) True None,
                     mallctl_call (extent_hooks_key pf (created_arena e w)) False
                       (Some ((arena_hooks pf e w)\<lparr>alloc := alloc_JemallocNodumpAllocator\<rparr>))]\<rparr>) \<and>
          (\<exists>a n. s = Some (a, n) \<and> n - 1 = 0 \<and> arena_index_m a = 0))"
  using shared_ptr_release_cases
          [of pf e s
             "w\<lparr>original_alloc_m := alloc (arena_hooks pf e w),
                calls := calls w @
                  [mallctl_call ''arenas.create'' True None,
                   mallctl_call (extent_hooks_key pf (created_arena e w)) True None,
                   mallctl_call (extent_hooks_key pf (created_arena e w)) False
                     (Some ((arena_hooks pf e w)\<lparr>alloc := alloc_JemallocNodumpAllocator\<rparr>))]\<rparr>"]
  by (auto simp: NewJ_written [OF assms])

lemma NewJ_cases [case_names not_supported create_fails zero_index read_fails mismatch write_fails ok]:
  obtains
    "\<not> ROCKSDB_JEMALLOC_NODUMP_ALLOCATOR pf"
  | "ROCKSDB_JEMALLOC_NODUMP_ALLOCATOR pf" "ret (create_reply e w) \<noteq> 0"
  | "ROCKSDB_JEMALLOC_NODUMP_ALLOCATOR pf" "ret (create_reply e w) = 0" "created_arena e w = 0"
  | "ROCKSDB_JEMALLOC_NODUMP_ALLOCATOR pf" "ret (create_reply e w) = 0" "created_arena e w \<noteq> 0"
    "ret (read_reply pf e w) \<noteq> 0"
  | "ROCKSDB_JEMALLOC_NODUMP_ALLOCATOR pf" "ret (create_reply e w) = 0" "created_arena e w \<noteq> 0"
    "ret (read_reply pf e w) = 0" "original_alloc_m w \<noteq> alloc_nullptr"
    "alloc (arena_hooks pf e w) \<noteq> original_alloc_m w"
  | "ROCKSDB_JEMALLOC_NODUMP_ALLOCATOR pf" "ret (create_reply e w) = 0" "created_arena e w \<noteq> 0"
    "ret (read_reply pf e w) = 0"
    "original_alloc_m w = alloc_nullptr \<or> alloc (arena_hooks pf e w) = original_alloc_m w"
    "ret (write_reply pf e w ((arena_hooks pf e w)\<lparr>alloc := alloc_JemallocNodumpAllocator\<rparr>)) \<noteq> 0"
  | "ROCKSDB_JEMALLOC_NODUMP_ALLOCATOR pf" "ret (create_reply e w) = 0" "created_arena e w \<noteq> 0"
    "ret (read_reply pf e w) = 0"
    "original_alloc_m w = alloc_nullptr \<or> alloc (arena_hooks pf e w) = original_alloc_m w"
    "ret (write_reply pf e w ((arena_hooks pf e w)\<lparr>alloc := alloc_JemallocNodumpAllocator\<rparr>)) = 0"
  by blast

lemma NewJ_None: 
  "\<exists>st. NewJemallocNodumpAllocator pf e options None w = Returned (st, None) w"
  by (cases "ROCKSDB_JEMALLOC_NODUMP_ALLOCATOR pf") (simp_all add: NewJ_not_supported NewJ_nullptr)

lemma issued_same [simp]: "issued w w = []"
  by (simp add: issued_def)

lemma issued_append [simp]: "issued w (w\<lparr>calls := calls w @ cs\<rparr>) = cs"
  by (simp add: issued_def)

lemma issued_append' [simp]: "issued w (w\<lparr>original_alloc_m := x, calls := calls w @ cs\<rparr>) = cs"
  by (simp add: issued_def)

lemma NewJ_slot:
  assumes "NewJemallocNodumpAllocator pf e options c w = Returned x w'"
  shows "(original_alloc_m w \<noteq> alloc_nullptr \<longrightarrow> original_alloc_m w' = original_alloc_m w) \<and>
         (fst x = OK \<longrightarrow>
            original_alloc_m w' = alloc (arena_hooks pf e w) \<and>
            (original_alloc_m w = alloc_nullptr \<or>
             alloc (arena_hooks pf e w) = original_alloc_m w))"
proof (cases c)
  case None
  with assms show ?thesis
    by (cases "ROCKSDB_JEMALLOC_NODUMP_ALLOCATOR pf") (auto simp: NewJ_not_supported NewJ_nullptr)
next
  case (Some s)
  show ?thesis
  proof (cases rule: NewJ_cases [where pf = pf and e = e and w = w])
    case not_supported
    with assms show ?thesis by (auto simp: NewJ_not_supported)
  next
    case create_fails
    with assms show ?thesis unfolding Some by (auto simp: NewJ_create_fails)
  next
    case zero_index
    with assms show ?thesis unfolding Some by (auto simp: NewJ_zero_index)
  next
    case read_fails
    with assms show ?thesis unfolding Some by (auto simp: NewJ_read_fails)
  next
    case mismatch
    with assms show ?thesis unfolding Some by (auto simp: NewJ_mismatch)
  next
    case write_fails
    with assms show ?thesis unfolding Some by (auto simp: NewJ_write_fails)
  next
    case ok
    from NewJ_ok [OF ok, of options s] assms ok(5) show ?thesis unfolding Some by auto
  qed
qed

lemma NewJ_OK_allocator:
  assumes "NewJemallocNodumpAllocator pf e options c w = Returned (OK, x) w'"
  shows "\<exists>a t. x = Some (Some (a, 1)) \<and> hooks_m a = Some t \<and>
           alloc t = alloc_JemallocNodumpAllocator"
proof (cases c)
  case None
  with assms show ?thesis
    by (cases "ROCKSDB_JEMALLOC_NODUMP_ALLOCATOR pf") (auto simp: NewJ_not_supported NewJ_nullptr)
next
  case (Some s)
  show ?thesis
  proof (cases rule: NewJ_cases [where pf = pf and e = e and w = w])
    case not_supported
    with assms show ?thesis by (auto simp: NewJ_not_supported)
  next
    case create_fails
    with assms show ?thesis unfolding Some by (auto simp: NewJ_create_fails)
  next
    case zero_index
    with assms show ?thesis unfolding Some by (auto simp: NewJ_zero_index)
  next
    case read_fails
    with assms show ?thesis unfolding Some by (auto simp: NewJ_read_fails)
  next
    case mismatch
    with assms show ?thesis unfolding Some by (auto simp: NewJ_mismatch)
  next
    case write_fails
    with assms show ?thesis unfolding Some by (auto simp: NewJ_write_fails)
  next
    case ok
    from NewJ_ok [OF ok, of options s] assms ok(5) show ?thesis unfolding Some by auto
  qed
qed

text \<open>
  The example runtime, run: two creations in a row with one allocation between them.
\<close>

lemma decimal_1: "decimal 1 = ''1''"
  by code_simp

lemma decimal_2: "decimal 2 = ''2''"
  by code_simp

lemma decimal_5: "decimal 5 = ''5''"
  by code_simp

lemma flags_of_arena_1:
  "sint (push_bit 20 (word_of_nat 1 + 1 :: 32 word)) OR 256 = (2097408 :: int)"
  by code_simp

lemma flags_of_arena_2:
  "sint (push_bit 20 (word_of_nat 2 + 1 :: 32 word)) OR 256 = (3145984 :: int)"
  by code_simp

lemmas example_defs =
  jemalloc5_linux_def jemalloc5_linux_release_def replaced_world_def example_env_def failing_env_def zero_arena_env_def default_hooks_def
  custom_hooks_def example_options_def initial_world_def first_allocator_def first_world_def
  second_allocator_def second_world_def extent_hooks_key_def destroy_key_def create_reply_def
  created_arena_def read_reply_def arena_hooks_def write_reply_def decimal_1 decimal_2 decimal_5

lemma example_first_create:
  "NewJemallocNodumpAllocator jemalloc5_linux (example_env 0) example_options (Some None)
     initial_world =
   Returned (OK, Some (Some (first_allocator, 1))) first_world"
  by (simp add: NewJemallocNodumpAllocator_def Let_def record_call_def compare_exchange_strong_def
        JemallocNodumpAllocator_ctor_def JemallocNodumpAllocator_dtor_def shared_ptr_release_def
        example_defs flags_of_arena_1 flags_of_arena_2)

lemma example_between:
  "run_process jemalloc5_linux (example_env 0) [op_Allocate first_allocator 100] first_world =
   Some (first_world\<lparr>calls := calls first_world @ [mallocx_call 100 2097408]\<rparr>)"
  by (simp add: Allocate_def record_call_def example_defs)

lemma example_second_create:
  "NewJemallocNodumpAllocator jemalloc5_linux (example_env 0) example_options (Some None)
     (first_world\<lparr>calls := calls first_world @ [mallocx_call 100 2097408]\<rparr>) =
   Returned (OK, Some (Some (second_allocator, 1))) second_world"
  by (simp add: NewJemallocNodumpAllocator_def Let_def record_call_def compare_exchange_strong_def
        JemallocNodumpAllocator_ctor_def JemallocNodumpAllocator_dtor_def shared_ptr_release_def
        example_defs flags_of_arena_1 flags_of_arena_2)

lemma example_replacing_create:
  "NewJemallocNodumpAllocator jemalloc5_linux (example_env 0) example_options
     (Some (Some (first_allocator, 1))) first_world =
   Returned (OK, Some (Some (second_allocator, 1))) replaced_world"
  by (simp add: NewJemallocNodumpAllocator_def Let_def record_call_def compare_exchange_strong_def
        JemallocNodumpAllocator_ctor_def JemallocNodumpAllocator_dtor_def shared_ptr_release_def
        example_defs flags_of_arena_1 flags_of_arena_2)

section \<open>The results of a creation\<close>

text \<open>
  Claim C5. In a build that has the allocator, creating with a null output parameter returns
  \<open>InvalidArgument\<close> and leaves the state of the process as it was: the record of calls is
  unchanged, so no arena was created and no hook table was read or written, and the original
  allocation function of the process is unchanged. (A build without the allocator answers
  \<open>NotSupported\<close>, by \<open>NewJ_not_supported\<close>, equally without a call.)
\<close>

theorem NewJ_null_output:
  assumes "ROCKSDB_JEMALLOC_NODUMP_ALLOCATOR pf"
  shows "NewJemallocNodumpAllocator pf e options None w =
           Returned (InvalidArgument ''cache_allocator is nullptr.'', None) w"
  using assms by (rule NewJ_nullptr)

theorem NewJ_null_output_witness:
  "ROCKSDB_JEMALLOC_NODUMP_ALLOCATOR jemalloc5_linux \<and>
   NewJemallocNodumpAllocator jemalloc5_linux (example_env 0) example_options None first_world =
     Returned (InvalidArgument ''cache_allocator is nullptr.'', None) first_world"
proof -
  have supported: "ROCKSDB_JEMALLOC_NODUMP_ALLOCATOR jemalloc5_linux"
    by (simp add: jemalloc5_linux_def)
  from NewJ_null_output [OF supported] supported show ?thesis
    by simp
qed

text \<open>
  Claim C4. A creation with a non-null output parameter that returns, returns either \<open>OK\<close>
  with an allocator whose arena index is not zero and whose hook table is owned (not the
  empty pointer), or an error (\<open>Incomplete\<close> or \<open>NotSupported\<close>; \<open>InvalidArgument\<close> answers a
  null parameter only) with the output parameter as it was. A creation that returns after
  the arena was created has a non-zero arena index. The only creations that do not return
  are failed assertions: the arena created with index 0, an arena whose allocation hook
  differs from the original allocation function already stored, and the destructor's
  assertion on an allocator with arena index 0 that the assignment released (the constructor
  builds none).
\<close>

theorem NewJ_success_or_error:
  "(\<forall>st out' w'. NewJemallocNodumpAllocator pf e options (Some s) w = Returned (st, out') w' \<longrightarrow>
      (st = OK \<and> (\<exists>a. out' = Some (Some (a, 1)) \<and> arena_index_m a \<noteq> 0 \<and> hooks_m a \<noteq> None)) \<or>
      ((\<exists>m. st = Incomplete m \<or> st = NotSupported m) \<and> out' = Some s)) \<and>
   (\<forall>x w'. NewJemallocNodumpAllocator pf e options (Some s) w = Returned x w' \<longrightarrow>
      ROCKSDB_JEMALLOC_NODUMP_ALLOCATOR pf \<longrightarrow> ret (create_reply e w) = 0 \<longrightarrow>
      created_arena e w \<noteq> 0) \<and>
   (\<forall>w'. NewJemallocNodumpAllocator pf e options (Some s) w = Aborted w' \<longrightarrow>
      (ret (create_reply e w) = 0 \<and> created_arena e w = 0) \<or>
      (original_alloc_m w \<noteq> alloc_nullptr \<and> alloc (arena_hooks pf e w) \<noteq> original_alloc_m w) \<or>
      (\<exists>a n. s = Some (a, n) \<and> n - 1 = 0 \<and> arena_index_m a = 0))"
proof (cases rule: NewJ_cases [where pf = pf and e = e and w = w])
  case not_supported
  then show ?thesis by (simp add: NewJ_not_supported)
next
  case create_fails
  then show ?thesis by (simp add: NewJ_create_fails)
next
  case zero_index
  then show ?thesis by (simp add: NewJ_zero_index)
next
  case read_fails
  then show ?thesis by (simp add: NewJ_read_fails)
next
  case mismatch
  then show ?thesis by (simp add: NewJ_mismatch)
next
  case write_fails
  then show ?thesis by (simp add: NewJ_write_fails)
next
  case ok
  from NewJ_ok [OF ok, of options s] ok(2,3) show ?thesis by auto
qed

theorem NewJ_success_or_error_witness:
  "(\<exists>a w'. NewJemallocNodumpAllocator jemalloc5_linux (example_env 0) example_options (Some None)
             initial_world = Returned (OK, Some (Some (a, 1))) w' \<and>
           arena_index_m a \<noteq> 0 \<and> hooks_m a \<noteq> None) \<and>
   ret (create_reply (example_env 0) initial_world) = 0 \<and>
   created_arena (example_env 0) initial_world \<noteq> 0 \<and>
   (\<exists>w'. NewJemallocNodumpAllocator jemalloc5_linux zero_arena_env example_options (Some None)
           initial_world = Aborted w') \<and>
   ret (create_reply zero_arena_env initial_world) = 0 \<and>
   created_arena zero_arena_env initial_world = 0"
proof -
  note main = NewJ_success_or_error
  let ?pf = jemalloc5_linux and ?e = "example_env 0"
  from main [of ?pf ?e example_options None initial_world, THEN conjunct1, rule_format,
             OF example_first_create]
  have good: "arena_index_m first_allocator \<noteq> 0 \<and> hooks_m first_allocator \<noteq> None"
    by simp
  have supported: "ROCKSDB_JEMALLOC_NODUMP_ALLOCATOR ?pf"
    and created: "ret (create_reply ?e initial_world) = 0"
    by (simp_all add: example_defs)
  from main [of ?pf ?e example_options None initial_world, THEN conjunct2, THEN conjunct1,
             rule_format, OF example_first_create supported created]
  have nonzero: "created_arena ?e initial_world \<noteq> 0" .
  have aborted: "NewJemallocNodumpAllocator ?pf zero_arena_env example_options (Some None)
                   initial_world =
                 Aborted (initial_world\<lparr>calls := [mallctl_call ''arenas.create'' True None]\<rparr>)"
    by (simp add: NewJemallocNodumpAllocator_def Let_def record_call_def example_defs)
  have slot: "original_alloc_m initial_world = alloc_nullptr"
    by (simp add: initial_world_def)
  from main [of ?pf zero_arena_env example_options None initial_world, THEN conjunct2,
             THEN conjunct2, rule_format, OF aborted] slot
  have zero: "ret (create_reply zero_arena_env initial_world) = 0 \<and>
              created_arena zero_arena_env initial_world = 0"
    by simp
  from example_first_create good created nonzero aborted zero show ?thesis
    by blast
qed

text \<open>
  Claim C6. Every hook table that a creation writes into the arena is written under the
  key of the created arena, has \<^verbatim>\<open>&JemallocNodumpAllocator::Alloc\<close> as its allocation hook, and
  agrees with the table read from the arena in each of the eight other entries. A successful
  creation did write such a table: its first three calls are the creation of the arena, the
  read of the arena's table and the write of a table that the new allocator owns (what the
  assignment to the output parameter releases comes after them).
\<close>

theorem replacement_hook_table:
  "(\<forall>st out' w' k t.
      NewJemallocNodumpAllocator pf e options cache_allocator w = Returned (st, out') w' \<longrightarrow>
      mallctl_call k False (Some t) \<in> set (issued w w') \<longrightarrow>
        k = extent_hooks_key pf (created_arena e w) \<and>
        alloc t = alloc_JemallocNodumpAllocator \<and>
        dalloc t = dalloc (arena_hooks pf e w) \<and>
        destroy t = destroy (arena_hooks pf e w) \<and>
        commit t = commit (arena_hooks pf e w) \<and>
        decommit t = decommit (arena_hooks pf e w) \<and>
        purge_lazy t = purge_lazy (arena_hooks pf e w) \<and>
        purge_forced t = purge_forced (arena_hooks pf e w) \<and>
        split t = split (arena_hooks pf e w) \<and>
        merge t = merge (arena_hooks pf e w)) \<and>
   (\<forall>out' w'.
      NewJemallocNodumpAllocator pf e options cache_allocator w = Returned (OK, out') w' \<longrightarrow>
      (\<exists>a t. out' = Some (Some (a, 1)) \<and> hooks_m a = Some t \<and> arena_index_m a = created_arena e w \<and>
             take 3 (issued w w') =
               [mallctl_call ''arenas.create'' True None,
                mallctl_call (extent_hooks_key pf (arena_index_m a)) True None,
                mallctl_call (extent_hooks_key pf (arena_index_m a)) False (Some t)]))"
proof (cases cache_allocator)
  case None
  with NewJ_None [of pf e options w] show ?thesis
    by (cases "ROCKSDB_JEMALLOC_NODUMP_ALLOCATOR pf") (auto simp: NewJ_not_supported NewJ_nullptr)
next
  case (Some s)
  show ?thesis
  proof (cases rule: NewJ_cases [where pf = pf and e = e and w = w])
    case not_supported
    then show ?thesis by (simp add: NewJ_not_supported)
  next
    case create_fails
    then show ?thesis unfolding Some by (simp add: NewJ_create_fails)
  next
    case zero_index
    then show ?thesis unfolding Some by (simp add: NewJ_zero_index)
  next
    case read_fails
    then show ?thesis unfolding Some by (simp add: NewJ_read_fails)
  next
    case mismatch
    then show ?thesis unfolding Some by (simp add: NewJ_mismatch)
  next
    case write_fails
    then show ?thesis unfolding Some by (simp add: NewJ_write_fails)
  next
    case ok
    from NewJ_ok [OF ok, of options s] show ?thesis unfolding Some
      by auto
  qed
qed

text \<open>
  On the example runtime, a creation through an output parameter that held the first
  allocator as its only owner writes the table of arena 2 in its third call and destroys
  arena 1 in its fourth.
\<close>

theorem replacement_hook_table_witness:
  "NewJemallocNodumpAllocator jemalloc5_linux (example_env 0) example_options
     (Some (Some (first_allocator, 1))) first_world =
     Returned (OK, Some (Some (second_allocator, 1))) replaced_world \<and>
   arena_hooks jemalloc5_linux (example_env 0) first_world = default_hooks \<and>
   issued first_world replaced_world =
     [mallctl_call ''arenas.create'' True None,
      mallctl_call ''arena.2.extent_hooks'' True None,
      mallctl_call ''arena.2.extent_hooks'' False (Some custom_hooks),
      mallctl_call ''arena.1.destroy'' False None] \<and>
   alloc custom_hooks = alloc_JemallocNodumpAllocator \<and>
   dalloc custom_hooks = 101 \<and> destroy custom_hooks = 102 \<and> commit custom_hooks = 103 \<and>
   decommit custom_hooks = 104 \<and> purge_lazy custom_hooks = 105 \<and>
   purge_forced custom_hooks = 106 \<and> split custom_hooks = 107 \<and> merge custom_hooks = 108 \<and>
   hooks_m second_allocator = Some custom_hooks \<and>
   take 3 (issued first_world replaced_world) =
     [mallctl_call ''arenas.create'' True None,
      mallctl_call ''arena.2.extent_hooks'' True None,
      mallctl_call ''arena.2.extent_hooks'' False (Some custom_hooks)]"
proof -
  note main = replacement_hook_table
  let ?pf = jemalloc5_linux and ?e = "example_env 0"
  let ?c = "Some (Some (first_allocator, 1))"
  have table: "arena_hooks ?pf ?e first_world = default_hooks"
    by (simp add: example_defs)
  have all: "issued first_world replaced_world =
     [mallctl_call ''arenas.create'' True None,
      mallctl_call ''arena.2.extent_hooks'' True None,
      mallctl_call ''arena.2.extent_hooks'' False (Some custom_hooks),
      mallctl_call ''arena.1.destroy'' False None]"
    by (simp add: issued_def example_defs)
  then have written: "mallctl_call ''arena.2.extent_hooks'' False (Some custom_hooks)
                   \<in> set (issued first_world replaced_world)"
    by simp
  from main [of ?pf ?e example_options ?c first_world, THEN conjunct1, rule_format,
             OF example_replacing_create written] table
  have entries: "alloc custom_hooks = alloc_JemallocNodumpAllocator \<and>
    dalloc custom_hooks = 101 \<and> destroy custom_hooks = 102 \<and> commit custom_hooks = 103 \<and>
    decommit custom_hooks = 104 \<and> purge_lazy custom_hooks = 105 \<and>
    purge_forced custom_hooks = 106 \<and> split custom_hooks = 107 \<and> merge custom_hooks = 108"
    by (simp add: default_hooks_def)
  from main [of ?pf ?e example_options ?c first_world, THEN conjunct2, rule_format,
             OF example_replacing_create]
  obtain a t where "Some (Some (second_allocator, 1 :: nat)) = Some (Some (a, 1))"
    and "hooks_m a = Some t"
    and "take 3 (issued first_world replaced_world) =
           [mallctl_call ''arenas.create'' True None,
            mallctl_call (extent_hooks_key ?pf (arena_index_m a)) True None,
            mallctl_call (extent_hooks_key ?pf (arena_index_m a)) False (Some t)]"
    by blast
  then have "a = second_allocator" and "hooks_m second_allocator = Some t"
    and "take 3 (issued first_world replaced_world) =
           [mallctl_call ''arenas.create'' True None,
            mallctl_call (extent_hooks_key ?pf (arena_index_m second_allocator)) True None,
            mallctl_call (extent_hooks_key ?pf (arena_index_m second_allocator)) False (Some t)]"
    by simp_all
  then have owned: "hooks_m second_allocator = Some custom_hooks \<and>
      take 3 (issued first_world replaced_world) =
        [mallctl_call ''arenas.create'' True None,
         mallctl_call ''arena.2.extent_hooks'' True None,
         mallctl_call ''arena.2.extent_hooks'' False (Some custom_hooks)]"
    by (simp add: all example_defs)
  from example_replacing_create table all entries owned show ?thesis
    by simp
qed

text \<open>
  The key of a destroy request differs from the keys a creation uses.
\<close>

lemma destroy_key_not_create: "destroy_key pf i \<noteq> ''arenas.create''"
  by (simp add: destroy_key_def)

lemma destroy_key_not_hooks: "destroy_key pf i \<noteq> extent_hooks_key pf j"
proof
  assume "destroy_key pf i = extent_hooks_key pf j"
  then have "last (destroy_key pf i) = last (extent_hooks_key pf j)"
    by simp
  then show False
    by (simp add: destroy_key_def extent_hooks_key_def)
qed

text \<open>
  Claim C7. After the arena was created (with a non-zero index), a failed read of its hook
  table, and a failed write of the new table, make the creation return \<open>Incomplete\<close> with a
  message that ends in the printed return code of the failed call, the output parameter as it
  was. The calls issued are the creation of the arena, the read, the write in the second case,
  and the log entry: no destroy request for any arena is among them.
\<close>

theorem no_rollback_after_arena_creation:
  assumes "ROCKSDB_JEMALLOC_NODUMP_ALLOCATOR pf"
    and "ret (create_reply e w) = 0"
    and "created_arena e w \<noteq> 0"
  shows
    "(ret (read_reply pf e w) \<noteq> 0 \<longrightarrow>
        (\<exists>w'. NewJemallocNodumpAllocator pf e options (Some s) w =
                Returned
                  (Incomplete
                     (''Failed to read existing hooks, error code: '' @
                      ToString pf (ret (read_reply pf e w))),
                   Some s) w' \<and>
              issued w w' =
                [mallctl_call ''arenas.create'' True None,
                 mallctl_call (extent_hooks_key pf (created_arena e w)) True None,
                 ROCKS_LOG_ERROR (info_log options) ''Failed to read existing hooks, error code: %d''
                   (ret (read_reply pf e w))] \<and>
              (\<forall>i oldp newp. mallctl_call (destroy_key pf i) oldp newp \<notin> set (issued w w')))) \<and>
     (ret (read_reply pf e w) = 0 \<longrightarrow>
      (original_alloc_m w = alloc_nullptr \<or> alloc (arena_hooks pf e w) = original_alloc_m w) \<longrightarrow>
      ret (write_reply pf e w ((arena_hooks pf e w)\<lparr>alloc := alloc_JemallocNodumpAllocator\<rparr>)) \<noteq> 0 \<longrightarrow>
        (\<exists>w'. NewJemallocNodumpAllocator pf e options (Some s) w =
                Returned
                  (Incomplete
                     (''Failed to set custom hook, error code: '' @
                      ToString pf
                        (ret (write_reply pf e w
                                ((arena_hooks pf e w)\<lparr>alloc := alloc_JemallocNodumpAllocator\<rparr>)))),
                   Some s) w' \<and>
              issued w w' =
                [mallctl_call ''arenas.create'' True None,
                 mallctl_call (extent_hooks_key pf (created_arena e w)) True None,
                 mallctl_call (extent_hooks_key pf (created_arena e w)) False
                   (Some ((arena_hooks pf e w)\<lparr>alloc := alloc_JemallocNodumpAllocator\<rparr>)),
                 ROCKS_LOG_ERROR (info_log options) ''Failed to set custom hook, error code: %d''
                   (ret (write_reply pf e w
                           ((arena_hooks pf e w)\<lparr>alloc := alloc_JemallocNodumpAllocator\<rparr>)))] \<and>
              (\<forall>i oldp newp. mallctl_call (destroy_key pf i) oldp newp \<notin> set (issued w w'))))"
  using assms
  by (auto simp: NewJ_read_fails NewJ_write_fails destroy_key_not_create destroy_key_not_hooks)

theorem no_rollback_after_arena_creation_witness:
  "(\<exists>w'. NewJemallocNodumpAllocator jemalloc5_linux (failing_env 1 5) example_options (Some None)
           initial_world =
         Returned (Incomplete ''Failed to read existing hooks, error code: 5'', Some None) w' \<and>
         issued initial_world w' =
           [mallctl_call ''arenas.create'' True None,
            mallctl_call ''arena.1.extent_hooks'' True None,
            ROCKS_LOG_ERROR (Some 1) ''Failed to read existing hooks, error code: %d'' 5] \<and>
         mallctl_call ''arena.1.destroy'' False None \<notin> set (issued initial_world w')) \<and>
   (\<exists>w'. NewJemallocNodumpAllocator jemalloc5_linux (failing_env 2 5) example_options (Some None)
           initial_world =
         Returned (Incomplete ''Failed to set custom hook, error code: 5'', Some None) w' \<and>
         issued initial_world w' =
           [mallctl_call ''arenas.create'' True None,
            mallctl_call ''arena.1.extent_hooks'' True None,
            mallctl_call ''arena.1.extent_hooks'' False (Some custom_hooks),
            ROCKS_LOG_ERROR (Some 1) ''Failed to set custom hook, error code: %d'' 5] \<and>
         mallctl_call ''arena.1.destroy'' False None \<notin> set (issued initial_world w'))"
proof (rule conjI)
  let ?pf = jemalloc5_linux and ?e = "failing_env 1 5"
  have pre: "ROCKSDB_JEMALLOC_NODUMP_ALLOCATOR ?pf" "ret (create_reply ?e initial_world) = 0"
    "created_arena ?e initial_world \<noteq> 0"
    by (simp_all add: example_defs)
  have fails: "ret (read_reply ?pf ?e initial_world) \<noteq> 0"
    by (simp add: example_defs)
  from no_rollback_after_arena_creation
         [OF pre, where options = example_options and s = None, THEN conjunct1, rule_format,
          OF fails]
  obtain w' where
    "NewJemallocNodumpAllocator ?pf ?e example_options (Some None) initial_world =
       Returned
         (Incomplete (''Failed to read existing hooks, error code: '' @
            ToString ?pf (ret (read_reply ?pf ?e initial_world))), Some None) w'"
    and "issued initial_world w' =
       [mallctl_call ''arenas.create'' True None,
        mallctl_call (extent_hooks_key ?pf (created_arena ?e initial_world)) True None,
        ROCKS_LOG_ERROR (info_log example_options) ''Failed to read existing hooks, error code: %d''
          (ret (read_reply ?pf ?e initial_world))]"
    and "\<forall>i oldp newp. mallctl_call (destroy_key ?pf i) oldp newp \<notin> set (issued initial_world w')"
    by blast
  from this(1,2) this(3) [rule_format, of 1 False None]
  show "\<exists>w'. NewJemallocNodumpAllocator ?pf ?e example_options (Some None) initial_world =
         Returned (Incomplete ''Failed to read existing hooks, error code: 5'', Some None) w' \<and>
         issued initial_world w' =
           [mallctl_call ''arenas.create'' True None,
            mallctl_call ''arena.1.extent_hooks'' True None,
            ROCKS_LOG_ERROR (Some 1) ''Failed to read existing hooks, error code: %d'' 5] \<and>
         mallctl_call ''arena.1.destroy'' False None \<notin> set (issued initial_world w')"
    by (simp add: example_defs)
next
  let ?pf = jemalloc5_linux and ?e = "failing_env 2 5"
  have pre: "ROCKSDB_JEMALLOC_NODUMP_ALLOCATOR ?pf" "ret (create_reply ?e initial_world) = 0"
    "created_arena ?e initial_world \<noteq> 0"
    by (simp_all add: example_defs)
  have reads: "ret (read_reply ?pf ?e initial_world) = 0"
    and unset: "original_alloc_m initial_world = alloc_nullptr \<or>
                alloc (arena_hooks ?pf ?e initial_world) = original_alloc_m initial_world"
    and fails: "ret (write_reply ?pf ?e initial_world
                  ((arena_hooks ?pf ?e initial_world)\<lparr>alloc := alloc_JemallocNodumpAllocator\<rparr>)) \<noteq> 0"
    by (simp_all add: example_defs)
  from no_rollback_after_arena_creation
         [OF pre, where options = example_options and s = None, THEN conjunct2, rule_format,
          OF reads unset fails]
  obtain w' where
    "NewJemallocNodumpAllocator ?pf ?e example_options (Some None) initial_world =
       Returned
         (Incomplete (''Failed to set custom hook, error code: '' @
            ToString ?pf (ret (write_reply ?pf ?e initial_world
              ((arena_hooks ?pf ?e initial_world)\<lparr>alloc := alloc_JemallocNodumpAllocator\<rparr>)))),
          Some None) w'"
    and "issued initial_world w' =
       [mallctl_call ''arenas.create'' True None,
        mallctl_call (extent_hooks_key ?pf (created_arena ?e initial_world)) True None,
        mallctl_call (extent_hooks_key ?pf (created_arena ?e initial_world)) False
          (Some ((arena_hooks ?pf ?e initial_world)\<lparr>alloc := alloc_JemallocNodumpAllocator\<rparr>)),
        ROCKS_LOG_ERROR (info_log example_options) ''Failed to set custom hook, error code: %d''
          (ret (write_reply ?pf ?e initial_world
             ((arena_hooks ?pf ?e initial_world)\<lparr>alloc := alloc_JemallocNodumpAllocator\<rparr>)))]"
    and "\<forall>i oldp newp. mallctl_call (destroy_key ?pf i) oldp newp \<notin> set (issued initial_world w')"
    by blast
  from this(1,2) this(3) [rule_format, of 1 False None]
  show "\<exists>w'. NewJemallocNodumpAllocator ?pf ?e example_options (Some None) initial_world =
         Returned (Incomplete ''Failed to set custom hook, error code: 5'', Some None) w' \<and>
         issued initial_world w' =
           [mallctl_call ''arenas.create'' True None,
            mallctl_call ''arena.1.extent_hooks'' True None,
            mallctl_call ''arena.1.extent_hooks'' False (Some custom_hooks),
            ROCKS_LOG_ERROR (Some 1) ''Failed to set custom hook, error code: %d'' 5] \<and>
         mallctl_call ''arena.1.destroy'' False None \<notin> set (issued initial_world w')"
    by (simp add: example_defs)
qed

section \<open>The original allocation function of the process\<close>

text \<open>
  The compare-and-set of a creation is the only write to the atomic in the file. It stores
  the new value when the atomic is unset and nothing otherwise, so no operation changes the
  original allocation function once it is not null.
\<close>

lemma compare_exchange_strong_unset_only:
  "snd (snd (compare_exchange_strong cur alloc_nullptr desired)) =
     (if cur = alloc_nullptr then desired else cur)"
  by (simp add: compare_exchange_strong_def)

lemma perform_slot:
  assumes "perform pf e x w = Some w'" and "original_alloc_m w \<noteq> alloc_nullptr"
  shows "original_alloc_m w' = original_alloc_m w"
proof (cases x)
  case (op_create options c)
  with assms obtain r where "NewJemallocNodumpAllocator pf e options c w = Returned r w'"
    by (cases "NewJemallocNodumpAllocator pf e options c w") auto
  from NewJ_slot [OF this] assms(2) show ?thesis by simp
next
  case (op_Allocate a n)
  with assms show ?thesis by (auto simp: Allocate_def record_call_def)
next
  case (op_Deallocate a p)
  with assms show ?thesis by (auto simp: Deallocate_def record_call_def)
next
  case (op_UsableSize a p n)
  with assms show ?thesis by (auto simp: UsableSize_def record_call_def)
next
  case (op_Alloc args)
  with assms obtain r where "Alloc pf e args w = Some (Returned r w')"
    by (cases "Alloc pf e args w"; cases "the (Alloc pf e args w)") auto
  from Alloc_Returned [OF this] show ?thesis
    by (auto simp: record_call_def split: if_splits)
next
  case (op_destroy a)
  with assms show ?thesis
    by (auto simp: JemallocNodumpAllocator_dtor_def Let_def record_call_def split: if_splits)
qed

lemma run_process_slot:
  "run_process pf e ops w = Some w' \<Longrightarrow> original_alloc_m w \<noteq> alloc_nullptr \<Longrightarrow>
   original_alloc_m w' = original_alloc_m w"
proof (induction ops arbitrary: w)
  case Nil
  then show ?case by simp
next
  case (Cons x xs)
  from Cons.prems(1) obtain w1 where step: "perform pf e x w = Some w1"
    and rest: "run_process pf e xs w1 = Some w'"
    by (auto split: Option.bind_splits)
  from perform_slot [OF step Cons.prems(2)] have "original_alloc_m w1 = original_alloc_m w" .
  with Cons.IH [OF rest] Cons.prems(2) show ?case by simp
qed

text \<open>
  Claim C2. Operations are performed one after another, each reading or writing the atomic
  at one point. (1) A successful creation that starts with the original allocation function
  unset leaves it set to the allocation hook of the table read from the new arena. (2) A
  creation that starts with it set and returns leaves it as it was, and when it returns \<open>OK\<close>
  the allocation hook it read equals the stored function; (3) when the hook it read differs,
  the creation aborts on the assertion, the stored function unchanged. (4) No sequence of
  operations changes the stored function once it is set. (5) Hence, for two successful
  creations with any operations between them, the stored function is the same after both,
  both read the same allocation hook, and both allocators own a table whose allocation hook
  is \<^verbatim>\<open>&JemallocNodumpAllocator::Alloc\<close>, which calls the stored function.
\<close>

theorem original_alloc_written_once:
  "(\<forall>out' w'. NewJemallocNodumpAllocator pf e options c w = Returned (OK, out') w' \<longrightarrow>
      original_alloc_m w = alloc_nullptr \<longrightarrow>
      original_alloc_m w' = alloc (arena_hooks pf e w)) \<and>
   (\<forall>x w'. NewJemallocNodumpAllocator pf e options c w = Returned x w' \<longrightarrow>
      original_alloc_m w \<noteq> alloc_nullptr \<longrightarrow>
      original_alloc_m w' = original_alloc_m w \<and>
      (fst x = OK \<longrightarrow> alloc (arena_hooks pf e w) = original_alloc_m w)) \<and>
   (ROCKSDB_JEMALLOC_NODUMP_ALLOCATOR pf \<longrightarrow> ret (create_reply e w) = 0 \<longrightarrow>
    created_arena e w \<noteq> 0 \<longrightarrow> ret (read_reply pf e w) = 0 \<longrightarrow>
    original_alloc_m w \<noteq> alloc_nullptr \<longrightarrow> alloc (arena_hooks pf e w) \<noteq> original_alloc_m w \<longrightarrow>
      (\<exists>w'. NewJemallocNodumpAllocator pf e options (Some s) w = Aborted w' \<and>
            original_alloc_m w' = original_alloc_m w)) \<and>
   (\<forall>ops w'. run_process pf e ops w = Some w' \<longrightarrow> original_alloc_m w \<noteq> alloc_nullptr \<longrightarrow>
      original_alloc_m w' = original_alloc_m w) \<and>
   (\<forall>x1 w1 ops w2 options2 c2 x2 w3.
      NewJemallocNodumpAllocator pf e options c w = Returned (OK, x1) w1 \<longrightarrow>
      original_alloc_m w1 \<noteq> alloc_nullptr \<longrightarrow>
      run_process pf e ops w1 = Some w2 \<longrightarrow>
      NewJemallocNodumpAllocator pf e options2 c2 w2 = Returned (OK, x2) w3 \<longrightarrow>
        original_alloc_m w3 = original_alloc_m w1 \<and>
        alloc (arena_hooks pf e w2) = alloc (arena_hooks pf e w) \<and>
        (\<exists>a1 a2 t1 t2. x1 = Some (Some (a1, 1)) \<and> x2 = Some (Some (a2, 1)) \<and>
           hooks_m a1 = Some t1 \<and> hooks_m a2 = Some t2 \<and>
           alloc t1 = alloc_JemallocNodumpAllocator \<and> alloc t2 = alloc_JemallocNodumpAllocator))"
proof (intro conjI allI impI)
  fix out' w'
  assume "NewJemallocNodumpAllocator pf e options c w = Returned (OK, out') w'"
  from NewJ_slot [OF this] show "original_alloc_m w' = alloc (arena_hooks pf e w)"
    by simp
next
  fix x w'
  assume "NewJemallocNodumpAllocator pf e options c w = Returned x w'"
    and "original_alloc_m w \<noteq> alloc_nullptr"
  with NewJ_slot [of pf e options c w x w'] show "original_alloc_m w' = original_alloc_m w"
    by simp
next
  fix x w'
  assume "NewJemallocNodumpAllocator pf e options c w = Returned x w'"
    and "original_alloc_m w \<noteq> alloc_nullptr" and "fst x = OK"
  with NewJ_slot [of pf e options c w x w']
  show "alloc (arena_hooks pf e w) = original_alloc_m w"
    by simp
next
  assume "ROCKSDB_JEMALLOC_NODUMP_ALLOCATOR pf" "ret (create_reply e w) = 0"
    "created_arena e w \<noteq> 0" "ret (read_reply pf e w) = 0"
    "original_alloc_m w \<noteq> alloc_nullptr" "alloc (arena_hooks pf e w) \<noteq> original_alloc_m w"
  then show "\<exists>w'. NewJemallocNodumpAllocator pf e options (Some s) w = Aborted w' \<and>
            original_alloc_m w' = original_alloc_m w"
    by (simp add: NewJ_mismatch)
next
  fix ops w'
  assume "run_process pf e ops w = Some w'" and "original_alloc_m w \<noteq> alloc_nullptr"
  then show "original_alloc_m w' = original_alloc_m w"
    by (rule run_process_slot)
next
  fix x1 w1 ops w2 options2 c2 x2 w3
  assume first: "NewJemallocNodumpAllocator pf e options c w = Returned (OK, x1) w1"
    and set: "original_alloc_m w1 \<noteq> alloc_nullptr"
    and between: "run_process pf e ops w1 = Some w2"
    and second: "NewJemallocNodumpAllocator pf e options2 c2 w2 = Returned (OK, x2) w3"
  from run_process_slot [OF between set] have w2: "original_alloc_m w2 = original_alloc_m w1" .
  from NewJ_slot [OF first] have w1: "original_alloc_m w1 = alloc (arena_hooks pf e w)"
    by simp
  from NewJ_slot [OF second] w2 set
  have w3: "original_alloc_m w3 = original_alloc_m w2"
    and seen: "alloc (arena_hooks pf e w2) = original_alloc_m w2"
    by auto
  from w3 w2 show "original_alloc_m w3 = original_alloc_m w1"
    by simp
  from seen w2 w1 show "alloc (arena_hooks pf e w2) = alloc (arena_hooks pf e w)"
    by simp
  from NewJ_OK_allocator [OF first] NewJ_OK_allocator [OF second]
  show "\<exists>a1 a2 t1 t2. x1 = Some (Some (a1, 1)) \<and> x2 = Some (Some (a2, 1)) \<and>
           hooks_m a1 = Some t1 \<and> hooks_m a2 = Some t2 \<and>
           alloc t1 = alloc_JemallocNodumpAllocator \<and> alloc t2 = alloc_JemallocNodumpAllocator"
    by blast
qed

theorem original_alloc_written_once_witness:
  "original_alloc_m initial_world = alloc_nullptr \<and>
   NewJemallocNodumpAllocator jemalloc5_linux (example_env 0) example_options (Some None)
     initial_world = Returned (OK, Some (Some (first_allocator, 1))) first_world \<and>
   original_alloc_m first_world = alloc_runtime 100 \<and>
   (\<exists>w2. run_process jemalloc5_linux (example_env 0) [op_Allocate first_allocator 100] first_world =
           Some w2 \<and>
         original_alloc_m w2 = alloc_runtime 100 \<and>
         NewJemallocNodumpAllocator jemalloc5_linux (example_env 0) example_options (Some None) w2 =
           Returned (OK, Some (Some (second_allocator, 1))) second_world \<and>
         alloc (arena_hooks jemalloc5_linux (example_env 0) w2) = alloc_runtime 100) \<and>
   original_alloc_m second_world = alloc_runtime 100 \<and>
   (\<exists>w'. NewJemallocNodumpAllocator jemalloc5_linux (example_env 0) example_options (Some None)
           (initial_world\<lparr>original_alloc_m := alloc_runtime 7\<rparr>) = Aborted w' \<and>
         original_alloc_m w' = alloc_runtime 7)"
proof -
  note main = original_alloc_written_once
  let ?pf = jemalloc5_linux and ?e = "example_env 0"
  let ?w2 = "first_world\<lparr>calls := calls first_world @ [mallocx_call 100 2097408]\<rparr>"
  let ?w7 = "initial_world\<lparr>original_alloc_m := alloc_runtime 7\<rparr>"
  have unset: "original_alloc_m initial_world = alloc_nullptr"
    by (simp add: initial_world_def)
  from main [of ?pf ?e example_options "Some None" initial_world, THEN conjunct1, rule_format,
             OF example_first_create unset]
  have installed: "original_alloc_m first_world = alloc_runtime 100"
    by (simp add: example_defs)
  then have set: "original_alloc_m first_world \<noteq> alloc_nullptr"
    by simp
  from main [of ?pf ?e example_options "Some None" first_world, THEN conjunct2, THEN conjunct2,
             THEN conjunct2, THEN conjunct1, rule_format, OF example_between set] installed
  have kept: "original_alloc_m ?w2 = alloc_runtime 100"
    by simp
  from main [of ?pf ?e example_options "Some None" initial_world, THEN conjunct2, THEN conjunct2,
             THEN conjunct2, THEN conjunct2, rule_format,
             OF example_first_create set example_between example_second_create] installed
  have twice: "original_alloc_m second_world = alloc_runtime 100"
    and same: "alloc (arena_hooks ?pf ?e ?w2) = alloc_runtime 100"
    by (simp_all add: example_defs)
  have "ROCKSDB_JEMALLOC_NODUMP_ALLOCATOR ?pf" "ret (create_reply ?e ?w7) = 0"
    "created_arena ?e ?w7 \<noteq> 0" "ret (read_reply ?pf ?e ?w7) = 0"
    "original_alloc_m ?w7 \<noteq> alloc_nullptr" "alloc (arena_hooks ?pf ?e ?w7) \<noteq> original_alloc_m ?w7"
    by (simp_all add: example_defs)
  from main [where pf = ?pf and e = ?e and w = ?w7 and options = example_options and s = None,
             THEN conjunct2, THEN conjunct2, THEN conjunct1, rule_format, OF this]
  have fatal: "\<exists>w'. NewJemallocNodumpAllocator ?pf ?e example_options (Some None) ?w7 = Aborted w' \<and>
                 original_alloc_m w' = alloc_runtime 7"
    by simp
  from unset example_first_create installed example_between kept example_second_create same twice
    fatal
  show ?thesis
    by simp
qed

section \<open>Destruction\<close>

text \<open>
  Claim C8. Destroying an allocator that the constructor built returns, whatever the runtime
  answers. It issues one request to the runtime, the destroy request for the arena index of
  the instance; when that request fails the only further call is one entry in the log of the
  instance, and the failure is not part of the result.
\<close>

theorem destructor_destroys_once:
  assumes "JemallocNodumpAllocator_ctor i fl h lg w0 = Returned a w1"
  shows "\<exists>w'. JemallocNodumpAllocator_dtor pf e a w = Returned () w' \<and>
           original_alloc_m w' = original_alloc_m w \<and>
           issued w w' =
             mallctl_call (destroy_key pf (arena_index_m a)) False None #
             (if ret (mallctl e (calls w) (destroy_key pf (arena_index_m a)) False None) \<noteq> 0
              then [ROCKS_LOG_ERROR (info_log_m a) ''Failed to destroy arena, error code: %d''
                      (ret (mallctl e (calls w) (destroy_key pf (arena_index_m a)) False None))]
              else [])"
proof -
  from assms have "arena_index_m a \<noteq> 0"
    by (auto simp: JemallocNodumpAllocator_ctor_def split: if_splits)
  then show ?thesis
    by (simp add: JemallocNodumpAllocator_dtor_def Let_def record_call_def destroy_key_def
          issued_def)
qed

theorem destructor_destroys_once_witness:
  "JemallocNodumpAllocator_ctor 1 2097408 (Some custom_hooks) (Some 1) initial_world =
     Returned first_allocator initial_world \<and>
   (\<exists>w'. JemallocNodumpAllocator_dtor jemalloc5_linux (example_env 0) first_allocator first_world =
           Returned () w' \<and>
         issued first_world w' = [mallctl_call ''arena.1.destroy'' False None]) \<and>
   (\<exists>w'. JemallocNodumpAllocator_dtor jemalloc5_linux (failing_env 0 5) first_allocator first_world =
           Returned () w' \<and>
         issued first_world w' =
           [mallctl_call ''arena.1.destroy'' False None,
            ROCKS_LOG_ERROR (Some 1) ''Failed to destroy arena, error code: %d'' 5])"
proof -
  have built: "JemallocNodumpAllocator_ctor 1 2097408 (Some custom_hooks) (Some 1) initial_world =
                 Returned first_allocator initial_world"
    by (simp add: JemallocNodumpAllocator_ctor_def first_allocator_def)
  from destructor_destroys_once [OF built, of jemalloc5_linux "example_env 0" first_world]
  obtain w' where
    "JemallocNodumpAllocator_dtor jemalloc5_linux (example_env 0) first_allocator first_world =
       Returned () w'"
    and "issued first_world w' =
       mallctl_call (destroy_key jemalloc5_linux (arena_index_m first_allocator)) False None #
       (if ret (mallctl (example_env 0) (calls first_world)
                  (destroy_key jemalloc5_linux (arena_index_m first_allocator)) False None) \<noteq> 0
        then [ROCKS_LOG_ERROR (info_log_m first_allocator) ''Failed to destroy arena, error code: %d''
                (ret (mallctl (example_env 0) (calls first_world)
                        (destroy_key jemalloc5_linux (arena_index_m first_allocator)) False None))]
        else [])"
    by blast
  then have quiet: "\<exists>w'. JemallocNodumpAllocator_dtor jemalloc5_linux (example_env 0) first_allocator
                       first_world = Returned () w' \<and>
                     issued first_world w' = [mallctl_call ''arena.1.destroy'' False None]"
    by (simp add: example_defs)
  from destructor_destroys_once [OF built, of jemalloc5_linux "failing_env 0 5" first_world]
  obtain w' where
    "JemallocNodumpAllocator_dtor jemalloc5_linux (failing_env 0 5) first_allocator first_world =
       Returned () w'"
    and "issued first_world w' =
       mallctl_call (destroy_key jemalloc5_linux (arena_index_m first_allocator)) False None #
       (if ret (mallctl (failing_env 0 5) (calls first_world)
                  (destroy_key jemalloc5_linux (arena_index_m first_allocator)) False None) \<noteq> 0
        then [ROCKS_LOG_ERROR (info_log_m first_allocator) ''Failed to destroy arena, error code: %d''
                (ret (mallctl (failing_env 0 5) (calls first_world)
                        (destroy_key jemalloc5_linux (arena_index_m first_allocator)) False None))]
        else [])"
    by blast
  then have logged: "\<exists>w'. JemallocNodumpAllocator_dtor jemalloc5_linux (failing_env 0 5) first_allocator
                        first_world = Returned () w' \<and>
                      issued first_world w' =
                        [mallctl_call ''arena.1.destroy'' False None,
                         ROCKS_LOG_ERROR (Some 1) ''Failed to destroy arena, error code: %d'' 5]"
    by (simp add: example_defs)
  from built quiet logged show ?thesis
    by simp
qed

section \<open>Usable sizes\<close>

text \<open>
  \<open>Allocate\<close> hands the size to \<^verbatim>\<open>mallocx\<close> and \<open>UsableSize\<close> hands the pointer to
  \<^verbatim>\<open>malloc_usable_size\<close>, both unchanged; how the two answers compare is the runtime's
  matter.
\<close>

lemma Allocate_then_UsableSize:
  assumes "Allocate e a n w = (p, w1)"
  shows "p = mallocx e (calls w) n (flags_m a) \<and>
         fst (UsableSize e a p m w1) =
           malloc_usable_size e (calls w @ [mallocx_call n (flags_m a)]) p"
  using assms by (auto simp: Allocate_def UsableSize_def record_call_def)

text \<open>
  Claim C10. \<open>UsableSize\<close> does not depend on the requested size it is given: for any two
  sizes the result and the state after are equal, the size returned being the answer of
  \<^verbatim>\<open>malloc_usable_size\<close> for the pointer.
\<close>

theorem usable_size_ignores_requested_size:
  "UsableSize e a p s1 w = UsableSize e a p s2 w \<and>
   fst (UsableSize e a p s1 w) = malloc_usable_size e (calls w) p"
  by (simp add: UsableSize_def)

end
